theory Spec2Isabelle
  imports Complex_Main
begin

section \<open>Values\<close>

text \<open>
  A Python \<open>str\<close> is modelled as the list of its characters (\<open>string\<close>); \<open>length\<close> is
  Python's \<open>len\<close> and \<open>take n\<close> is the slice \<open>[:n]\<close>.

  A float is modelled by the value it denotes: a finite float is the real number it
  stands for, and the two infinities and NaN (pandas' null of a float column) are
  values of their own. Only comparisons are computed on floats here; the metrics are
  computed by library functions that the model takes as parameters.
\<close>

datatype pyfloat = Finite real | PosInf | NegInf | NaN

text \<open>The comparison \<open><\<close> of floats: every comparison with NaN is false.\<close>

fun float_less :: "pyfloat \<Rightarrow> pyfloat \<Rightarrow> bool" where
  "float_less NaN y = False"
| "float_less x NaN = False"
| "float_less (Finite a) (Finite b) = (a < b)"
| "float_less (Finite a) PosInf = True"
| "float_less (Finite a) NegInf = False"
| "float_less PosInf y = False"
| "float_less NegInf NegInf = False"
| "float_less NegInf y = True"

definition float_of_int :: "int \<Rightarrow> pyfloat" where
  "float_of_int i = Finite (of_int i)"

text \<open>
  The exceptions the two scripts can meet. \<open>json.decoder.JSONDecodeError\<close> and
  \<open>UnicodeDecodeError\<close> are subclasses of \<open>ValueError\<close>, so \<open>except ValueError\<close> catches
  all three. The payload is the message, \<open>str(err)\<close>.
\<close>

datatype exn =
    ValueError string
  | JSONDecodeError string
  | UnicodeDecodeError string
  | FileNotFoundError string
  | AttributeError string
  | OtherError string

fun is_ValueError :: "exn \<Rightarrow> bool" where
  "is_ValueError (ValueError m) = True"
| "is_ValueError (JSONDecodeError m) = True"
| "is_ValueError (UnicodeDecodeError m) = True"
| "is_ValueError e = False"

fun is_FileNotFoundError :: "exn \<Rightarrow> bool" where
  "is_FileNotFoundError (FileNotFoundError m) = True"
| "is_FileNotFoundError e = False"

fun is_JSONDecodeError :: "exn \<Rightarrow> bool" where
  "is_JSONDecodeError (JSONDecodeError m) = True"
| "is_JSONDecodeError e = False"

fun exn_str :: "exn \<Rightarrow> string" where
  "exn_str (ValueError m) = m"
| "exn_str (JSONDecodeError m) = m"
| "exn_str (UnicodeDecodeError m) = m"
| "exn_str (FileNotFoundError m) = m"
| "exn_str (AttributeError m) = m"
| "exn_str (OtherError m) = m"

text \<open>JSON values as \<open>json.load\<close> returns them; an object is a Python \<open>dict\<close>.\<close>

datatype json =
    JNull
  | JBool bool
  | JInt int
  | JFloat pyfloat
  | JStr string
  | JArr "json list"
  | JObj "(string \<times> json) list"

text \<open>Python's truth value of a JSON value, as \<open>not x\<close> tests it.\<close>

fun truthy :: "json \<Rightarrow> bool" where
  "truthy JNull = False"
| "truthy (JBool b) = b"
| "truthy (JInt i) = (i \<noteq> 0)"
| "truthy (JFloat f) = (f \<noteq> Finite 0)"
| "truthy (JStr s) = (s \<noteq> [])"
| "truthy (JArr xs) = (xs \<noteq> [])"
| "truthy (JObj d) = (d \<noteq> [])"

fun py_type_name :: "json \<Rightarrow> string" where
  "py_type_name JNull = ''NoneType''"
| "py_type_name (JBool b) = ''bool''"
| "py_type_name (JInt i) = ''int''"
| "py_type_name (JFloat f) = ''float''"
| "py_type_name (JStr s) = ''str''"
| "py_type_name (JArr xs) = ''list''"
| "py_type_name (JObj d) = ''dict''"

subsection \<open>Dictionaries\<close>

text \<open>
  A \<open>dict\<close> keeps its keys in insertion order: it is an association list.
  \<open>d[k] = v\<close> replaces the value of a key that is present, in place, and appends a
  new key at the end. \<open>d.get(k)\<close> is \<open>None\<close> for an absent key.
\<close>

definition dict_get :: "(string \<times> 'v) list \<Rightarrow> string \<Rightarrow> 'v option" where
  "dict_get d k = map_of d k"

fun dict_set :: "string \<Rightarrow> 'v \<Rightarrow> (string \<times> 'v) list \<Rightarrow> (string \<times> 'v) list" where
  "dict_set k v [] = [(k, v)]"
| "dict_set k v ((k', v') # d) =
     (if k' = k then (k, v) # d else (k', v') # dict_set k v d)"

text \<open>\<open>d |= other\<close>: the items of \<open>other\<close> are stored into \<open>d\<close> one after the other.\<close>

fun dict_update :: "(string \<times> 'v) list \<Rightarrow> (string \<times> 'v) list \<Rightarrow> (string \<times> 'v) list" where
  "dict_update d [] = d"
| "dict_update d ((k, v) # items) = dict_update (dict_set k v d) items"

text \<open>A dict display \<open>{k1: v1, ..., **more}\<close> stores its items into an empty dict.\<close>

definition mk_dict :: "(string \<times> 'v) list \<Rightarrow> (string \<times> 'v) list" where
  "mk_dict items = dict_update [] items"

subsection \<open>Strings\<close>

text \<open>\<open>sub in s\<close> on strings: \<open>sub\<close> occurs in \<open>s\<close> as a contiguous run.\<close>

fun str_contains :: "string \<Rightarrow> string \<Rightarrow> bool" where
  "str_contains sub [] = (sub = [])"
| "str_contains sub (c # cs) = (take (length sub) (c # cs) = sub \<or> str_contains sub cs)"

text \<open>\<open>sep.join(xs)\<close>.\<close>

fun str_join :: "string \<Rightarrow> string list \<Rightarrow> string" where
  "str_join sep [] = []"
| "str_join sep [x] = x"
| "str_join sep (x # y # ys) = x @ sep @ str_join sep (y # ys)"

text \<open>The decimal digits of a natural number, as an f-string prints it.\<close>

fun str_of_nat :: "nat \<Rightarrow> string" where
  "str_of_nat n =
     (if n < 10 then [''0123456789'' ! n]
      else str_of_nat (n div 10) @ [''0123456789'' ! (n mod 10)])"

declare str_of_nat.simps [simp del]

section \<open>The world of a run\<close>

text \<open>
  A file holds raw text, or the text \<open>json.dumps j\<close> of a JSON value \<open>j\<close>, which is
  kept as the value itself: \<open>json.load\<close> on such a file gives \<open>j\<close> back. On raw text
  \<open>json.load\<close> is the library's parser, a parameter of the model.

  \<open>files\<close> holds the paths that can be opened and read as UTF-8 text. Opening and
  reading any other path raises the exception \<open>read_error w path\<close>: \<open>FileNotFoundError\<close>
  when there is no such file, \<open>UnicodeDecodeError\<close> when its bytes are not UTF-8, some
  other error for a directory or a file without permission.

  \<open>listing w folder\<close> is what \<open>glob(os.path.join(folder, "*"))\<close> returns, \<open>stdout\<close> the
  lines printed so far.

  Writing a file is taken to succeed: a results path that cannot be opened for writing
  (a missing directory, no permission, a full disk) is outside the model, and every
  statement below that a run ends normally is about a run whose results file can be
  written.
\<close>

datatype content = Text string | Json json

record world =
  files :: "string \<rightharpoonup> content"
  read_error :: "string \<Rightarrow> exn"
  listing :: "string \<Rightarrow> string list"
  stdout :: "string list"

text \<open>
  The rows of the two tables as \<open>pd.read_csv\<close> returns them with the columns and
  types of \<open>GOLDSTANDARD_COLS\<close> (\<open>id: str\<close>, \<open>disease: int\<close>) and \<open>PREDICTION_COLS\<close>
  (\<open>id: str\<close>, \<open>probability: float\<close>).
\<close>

record gold_row =
  gid :: string
  disease :: int

record pred_row =
  pid :: string
  probability :: pyfloat

text \<open>
  The libraries the scripts call (pandas, json, cnb_tools, scikit-learn) are not part of
  the repository. Their behaviour is a parameter of the model:
  \<^item> \<open>parse_gold\<close>, \<open>parse_pred\<close>: \<open>pd.read_csv\<close> on the text of a file, with the columns
    and types above; it returns the rows or raises;
  \<^item> \<open>json_loads\<close>, \<open>json_dumps\<close>: the JSON parser on raw text and the serialiser;
  \<^item> the texts of the five messages of \<open>cnb_tools.validation_toolkit\<close>, which may
    depend on the columns checked;
  \<^item> \<open>roc_auc_score\<close>, \<open>precision_recall_curve\<close> (its first two results), \<open>auc\<close>.
\<close>

record lib =
  parse_gold :: "string \<Rightarrow> exn + gold_row list"
  parse_pred :: "string \<Rightarrow> exn + pred_row list"
  json_loads :: "string \<Rightarrow> exn + json"
  json_dumps :: "json \<Rightarrow> string"
  duplicate_msg :: "string list \<Rightarrow> string"
  missing_msg :: "string list \<Rightarrow> string list \<Rightarrow> string"
  unknown_msg :: "string list \<Rightarrow> string list \<Rightarrow> string"
  nan_msg :: "pyfloat list \<Rightarrow> string"
  range_msg :: "pyfloat list \<Rightarrow> int \<Rightarrow> int \<Rightarrow> string"
  roc_auc_score :: "int list \<Rightarrow> pyfloat list \<Rightarrow> exn + pyfloat"
  precision_recall_curve :: "int list \<Rightarrow> pyfloat list \<Rightarrow> exn + (pyfloat list \<times> pyfloat list)"
  auc :: "pyfloat list \<Rightarrow> pyfloat list \<Rightarrow> exn + pyfloat"

definition text_of :: "lib \<Rightarrow> content \<Rightarrow> string" where
  "text_of lib c = (case c of Text s \<Rightarrow> s | Json j \<Rightarrow> json_dumps lib j)"

text \<open>The \<open>FileNotFoundError\<close> of a missing file.\<close>

definition no_such_file :: "string \<Rightarrow> exn" where
  "no_such_file path =
     FileNotFoundError (''[Errno 2] No such file or directory: '' @ [CHR 0x27] @ path @ [CHR 0x27])"

text \<open>
  \<open>open(path, encoding="utf-8").read()\<close>, and the reading that \<open>pd.read_csv(path)\<close> does:
  the text of the file, or the exception that opening or decoding it raises.
\<close>

definition read_text :: "lib \<Rightarrow> world \<Rightarrow> string \<Rightarrow> exn + string" where
  "read_text lib w path =
     (case files w path of
        None \<Rightarrow> Inl (read_error w path)
      | Some c \<Rightarrow> Inr (text_of lib c))"

definition read_csv_gold :: "lib \<Rightarrow> world \<Rightarrow> string \<Rightarrow> exn + gold_row list" where
  "read_csv_gold lib w path =
     (case read_text lib w path of Inl e \<Rightarrow> Inl e | Inr s \<Rightarrow> parse_gold lib s)"

definition read_csv_pred :: "lib \<Rightarrow> world \<Rightarrow> string \<Rightarrow> exn + pred_row list" where
  "read_csv_pred lib w path =
     (case read_text lib w path of Inl e \<Rightarrow> Inl e | Inr s \<Rightarrow> parse_pred lib s)"

text \<open>\<open>json.load\<close> on an open file.\<close>

definition json_load :: "lib \<Rightarrow> content \<Rightarrow> exn + json" where
  "json_load lib c = (case c of Json j \<Rightarrow> Inr j | Text s \<Rightarrow> json_loads lib s)"

text \<open>\<open>print(line)\<close>.\<close>

definition print :: "string \<Rightarrow> world \<Rightarrow> world" where
  "print line w = w\<lparr>stdout := stdout w @ [line]\<rparr>"

text \<open>\<open>with open(path, "w") as out: out.write(json.dumps(j))\<close>.\<close>

definition write_json :: "string \<Rightarrow> json \<Rightarrow> world \<Rightarrow> world" where
  "write_json path j w = w\<lparr>files := (files w)(path \<mapsto> Json j)\<rparr>"

section \<open>utils.py\<close>

definition extract_gs_file :: "world \<Rightarrow> string \<Rightarrow> exn + string" where
  "extract_gs_file w folder =
     (let fs = listing w folder in
      if length fs \<noteq> 1 then
        Inl (ValueError (''Expected exactly one goldstandard file in folder. ''
                         @ ''Got '' @ str_of_nat (length fs) @ ''. Exiting.''))
      else Inr (fs ! 0))"

section \<open>cnb_tools.validation_toolkit\<close>

text \<open>
  Modelled from the spec: the five checks of \<open>cnb_tools.validation_toolkit\<close> that
  \<open>validate\<close> calls are not under src/. The spec says of them: "Each check yields
  either an empty string (pass) or a descriptive message". What makes a check fail is
  taken from the spec's words; the text of the message is the library's, a parameter.
\<close>

text \<open>
  Modelled from the spec: check_duplicate_keys is missing. "Duplicate key check: fails
  if any id appears more than once in predictions."
\<close>

definition check_duplicate_keys :: "lib \<Rightarrow> string list \<Rightarrow> string" where
  "check_duplicate_keys lib pred_ids =
     (if \<not> distinct pred_ids then duplicate_msg lib pred_ids else [])"

text \<open>
  Modelled from the spec: check_missing_keys is missing. "Missing key check: fails if
  any goldstandard id has no corresponding prediction."
\<close>

definition check_missing_keys :: "lib \<Rightarrow> string list \<Rightarrow> string list \<Rightarrow> string" where
  "check_missing_keys lib gold_ids pred_ids =
     (if list_ex (\<lambda>k. k \<notin> set pred_ids) gold_ids then missing_msg lib gold_ids pred_ids else [])"

text \<open>
  Modelled from the spec: check_unknown_keys is missing. "Unknown key check: fails if
  any prediction id is absent from goldstandard."
\<close>

definition check_unknown_keys :: "lib \<Rightarrow> string list \<Rightarrow> string list \<Rightarrow> string" where
  "check_unknown_keys lib gold_ids pred_ids =
     (if list_ex (\<lambda>k. k \<notin> set gold_ids) pred_ids then unknown_msg lib gold_ids pred_ids else [])"

text \<open>
  Modelled from the spec: check_nan_values is missing. "NaN/null check: fails if any
  probability is null."
\<close>

definition check_nan_values :: "lib \<Rightarrow> pyfloat list \<Rightarrow> string" where
  "check_nan_values lib col =
     (if list_ex (\<lambda>x. x = NaN) col then nan_msg lib col else [])"

text \<open>
  Modelled from the spec: check_values_range is missing. "Range check: fails if any
  probability is outside [0, 1] inclusive", the bounds being the arguments \<open>min_val\<close>
  and \<open>max_val\<close>. A value is outside when it is below the lower or above the upper
  bound; a null is no value, and is left to the NaN check.
\<close>

definition check_values_range :: "lib \<Rightarrow> pyfloat list \<Rightarrow> int \<Rightarrow> int \<Rightarrow> string" where
  "check_values_range lib col min_val max_val =
     (if list_ex (\<lambda>x. float_less x (float_of_int min_val) \<or> float_less (float_of_int max_val) x) col
      then range_msg lib col min_val max_val else [])"

section \<open>validate.py\<close>

text \<open>\<open>str(PREDICTION_COLS)\<close>.\<close>

definition PREDICTION_COLS_str :: string where
  "PREDICTION_COLS_str = ''{'id': <class 'str'>, 'probability': <class 'float'>}''"

text \<open>
  \<open>validate\<close>: the goldstandard is read outside the \<open>try\<close>, so any error of that read
  leaves the function. The read of the predictions is inside: a \<open>ValueError\<close> becomes
  the one error message, any other exception leaves the function. The result is the
  list \<open>errors\<close> without its empty strings.
\<close>

definition validate :: "lib \<Rightarrow> world \<Rightarrow> string \<Rightarrow> string \<Rightarrow> exn + string list" where
  "validate lib w gold_file pred_file =
     (case read_csv_gold lib w gold_file of
        Inl e \<Rightarrow> Inl e
      | Inr gold \<Rightarrow>
          (case read_csv_pred lib w pred_file of
             Inl err \<Rightarrow>
               if is_ValueError err then
                 Inr (filter (\<lambda>s. s \<noteq> [])
                   [''Invalid column names and/or types: '' @ exn_str err @ ''. ''
                    @ ''Expecting: '' @ PREDICTION_COLS_str @ ''.''])
               else Inl err
           | Inr pred \<Rightarrow>
               Inr (filter (\<lambda>s. s \<noteq> [])
                 [check_duplicate_keys lib (map pid pred),
                  check_missing_keys lib (map gid gold) (map pid pred),
                  check_unknown_keys lib (map gid gold) (map pid pred),
                  check_nan_values lib (map probability pred),
                  check_values_range lib (map probability pred) 0 1])))"

text \<open>
  The first statement of \<open>main\<close>: the list \<open>errors\<close>. A path that contains
  \<open>INVALID\<close> is read as text and is the only error; otherwise the goldstandard file is
  looked up and \<open>validate\<close> runs.
\<close>

definition collect_errors :: "lib \<Rightarrow> string \<Rightarrow> string \<Rightarrow> world \<Rightarrow> exn + string list" where
  "collect_errors lib predictions_file goldstandard_folder w =
     (if str_contains ''INVALID'' predictions_file then
        (case read_text lib w predictions_file of
           Inl e \<Rightarrow> Inl e
         | Inr s \<Rightarrow> Inr [s])
      else
        (case extract_gs_file w goldstandard_folder of
           Inl e \<Rightarrow> Inl e
         | Inr gold_file \<Rightarrow> validate lib w gold_file predictions_file))"

text \<open>
  \<open>main\<close> of validate.py. \<open>Inl e\<close>: the exception \<open>e\<close> was not caught and the process
  aborts; \<open>Inr w'\<close>: the process ends normally in the world \<open>w'\<close>.
\<close>

definition validate_main :: "lib \<Rightarrow> string \<Rightarrow> string \<Rightarrow> string \<Rightarrow> world \<Rightarrow> exn + world" where
  "validate_main lib predictions_file goldstandard_folder output_file w =
     (case collect_errors lib predictions_file goldstandard_folder w of
        Inl e \<Rightarrow> Inl e
      | Inr errors \<Rightarrow>
          (let invalid_reasons = str_join [CHR 0x0A] errors;
               status = (if invalid_reasons \<noteq> [] then ''INVALID'' else ''VALIDATED'');
               invalid_reasons' =
                 (if length invalid_reasons > 500 then take 496 invalid_reasons @ ''...''
                  else invalid_reasons);
               res = mk_dict [(''validation_status'', JStr status),
                              (''validation_errors'', JStr invalid_reasons')]
           in Inr (print status (write_json output_file (JObj res) w))))"

section \<open>score.py\<close>

text \<open>
  Modelled from the spec: \<open>DataFrame.merge\<close> of pandas is not under src/. "Performs a
  left join of goldstandard rows onto predictions by id to fix row order to the
  goldstandard's order (predictions for unknown ids are dropped by the join; missing
  predictions become null". A row of the result is (id, disease, probability).
\<close>

definition merge_left :: "gold_row list \<Rightarrow> pred_row list \<Rightarrow> (string \<times> int \<times> pyfloat) list" where
  "merge_left gold pred =
     concat (map (\<lambda>g.
       (case filter (\<lambda>p. pid p = gid g) pred of
          [] \<Rightarrow> [(gid g, disease g, NaN)]
        | ms \<Rightarrow> map (\<lambda>p. (gid g, disease g, probability p)) ms)) gold)"

text \<open>\<open>score\<close>: every exception of the reads and of the metrics leaves the function.\<close>

definition score :: "lib \<Rightarrow> world \<Rightarrow> string \<Rightarrow> string \<Rightarrow> exn + (string \<times> json) list" where
  "score lib w gold_file pred_file =
     (case read_csv_pred lib w pred_file of
        Inl e \<Rightarrow> Inl e
      | Inr pred \<Rightarrow>
     (case read_csv_gold lib w gold_file of
        Inl e \<Rightarrow> Inl e
      | Inr gold \<Rightarrow>
     (let merged = merge_left gold pred;
          y_true = map (\<lambda>r. fst (snd r)) merged;
          y_score = map (\<lambda>r. snd (snd r)) merged
      in
     (case roc_auc_score lib y_true y_score of
        Inl e \<Rightarrow> Inl e
      | Inr roc \<Rightarrow>
     (case precision_recall_curve lib y_true y_score of
        Inl e \<Rightarrow> Inl e
      | Inr (precision, recall) \<Rightarrow>
     (case auc lib recall precision of
        Inl e \<Rightarrow> Inl e
      | Inr a \<Rightarrow> Inr (mk_dict [(''auc_roc'', JFloat roc), (''auprc'', JFloat a)])))))))"

text \<open>
  The \<open>try\<close> that loads the results file: \<open>open\<close> and \<open>json.load\<close> (which reads the file)
  are both inside it. A \<open>FileNotFoundError\<close> and a \<open>JSONDecodeError\<close> give the blank record;
  any other exception, a \<open>UnicodeDecodeError\<close> among them, is not caught.
\<close>

definition blank_results :: json where
  "blank_results =
     JObj (mk_dict [(''validation_status'', JStr []), (''validation_errors'', JStr [])])"

definition load_results :: "lib \<Rightarrow> string \<Rightarrow> world \<Rightarrow> exn + json" where
  "load_results lib output_file w =
     (case (case files w output_file of
              None \<Rightarrow> Inl (read_error w output_file)
            | Some c \<Rightarrow> json_load lib c) of
        Inl e \<Rightarrow>
          if is_FileNotFoundError e \<or> is_JSONDecodeError e then Inr blank_results
          else Inl e
      | Inr res \<Rightarrow> Inr res)"

text \<open>
  \<open>res.get(...)\<close> on a value that is no dict: the attribute lookup raises
  \<open>AttributeError\<close>.
\<close>

definition no_attribute_get :: "json \<Rightarrow> exn" where
  "no_attribute_get res =
     AttributeError ([CHR 0x27] @ py_type_name res @ [CHR 0x27]
                     @ '' object has no attribute '' @ [CHR 0x27] @ ''get'' @ [CHR 0x27])"

text \<open>The truth value of \<open>res.get(key)\<close>: \<open>None\<close> is false.\<close>

definition truthy_opt :: "json option \<Rightarrow> bool" where
  "truthy_opt v = (case v of None \<Rightarrow> False | Some j \<Rightarrow> truthy j)"

text \<open>The warning of \<open>main\<close> when \<open>res.get("validation_status")\<close> is false.\<close>

definition warn_unvalidated :: "json option \<Rightarrow> world \<Rightarrow> world" where
  "warn_unvalidated vs w =
     (if \<not> truthy_opt vs then
        print (''Validation results not found. Proceeding with scoring but ''
               @ ''results may be inaccurate.'') w
      else w)"

text \<open>
  The \<open>if\<close>/\<open>else\<close> of \<open>main\<close> that decides whether to score, given the value \<open>vs\<close>
  of \<open>res.get("validation_status")\<close>. It returns \<open>status\<close>, \<open>errors\<close>, \<open>scores\<close> and
  the world after its prints. \<open>status\<close> and \<open>scores\<close> start as \<open>"INVALID"\<close> and \<open>{}\<close>;
  the lookup of the goldstandard file is outside the inner \<open>try\<close>, which catches
  \<open>ValueError\<close> only.
\<close>

definition attempt_scoring ::
  "lib \<Rightarrow> string \<Rightarrow> string \<Rightarrow> json option \<Rightarrow> world
     \<Rightarrow> exn + (string \<times> string \<times> (string \<times> json) list \<times> world)" where
  "attempt_scoring lib predictions_file goldstandard_folder vs w =
     (if vs = Some (JStr ''INVALID'') then
        Inr (''INVALID'', ''Submission could not be evaluated due to validation errors.'', [], w)
      else
        (case extract_gs_file w goldstandard_folder of
           Inl e \<Rightarrow> Inl e
         | Inr gold_file \<Rightarrow>
             (case score lib w gold_file predictions_file of
                Inr scores \<Rightarrow> Inr (''SCORED'', [], scores, w)
              | Inl err \<Rightarrow>
                  if is_ValueError err then
                    Inr (''INVALID'',
                         ''Error encountered during scoring; submission not evaluated.'',
                         [],
                         print (''Error encountered: '' @ exn_str err) w)
                  else Inl err)))"

text \<open>\<open>main\<close> of score.py, with the same reading of \<open>Inl\<close> and \<open>Inr\<close> as above.\<close>

definition score_main :: "lib \<Rightarrow> string \<Rightarrow> string \<Rightarrow> string \<Rightarrow> world \<Rightarrow> exn + world" where
  "score_main lib predictions_file goldstandard_folder output_file w =
     (case load_results lib output_file w of
        Inl e \<Rightarrow> Inl e
      | Inr res \<Rightarrow>
          (case res of
             JObj d \<Rightarrow>
               (let vs = dict_get d ''validation_status'';
                    w1 = warn_unvalidated vs w
                in
                (case attempt_scoring lib predictions_file goldstandard_folder vs w1 of
                   Inl e \<Rightarrow> Inl e
                 | Inr (status, errors, scores, w2) \<Rightarrow>
                     (let res' = dict_update d
                            (mk_dict ([(''score_status'', JStr status),
                                       (''score_errors'', JStr errors)] @ scores))
                      in Inr (print status (write_json output_file (JObj res') w2)))))
           | _ \<Rightarrow> Inl (no_attribute_get res)))"

section \<open>Reading the results file\<close>

text \<open>
  The value recorded under a key of the JSON object that a file holds; \<open>None\<close> when
  the file is missing, holds no JSON object, or the object has no such key.
\<close>

definition recorded :: "world \<Rightarrow> string \<Rightarrow> string \<Rightarrow> json option" where
  "recorded w path key =
     (case files w path of
        Some (Json (JObj d)) \<Rightarrow> dict_get d key
      | _ \<Rightarrow> None)"

text \<open>
  A fully conformant prediction set, in the spec's words: "exact id match, all
  probabilities in [0,1], no duplicates/nulls".
\<close>

definition conformant :: "gold_row list \<Rightarrow> pred_row list \<Rightarrow> bool" where
  "conformant gold pred \<longleftrightarrow>
     set (map pid pred) = set (map gid gold)
     \<and> distinct (map pid pred)
     \<and> list_all (\<lambda>r. case probability r of
                       Finite x \<Rightarrow> 0 \<le> x \<and> x \<le> 1
                     | _ \<Rightarrow> False) pred"

section \<open>Sample data\<close>

text \<open>
  A goldstandard and four predictions files, with a library that reads them:
  the spec's example (ids \<open>a\<close>, \<open>b\<close> with labels 0, 1 and probabilities 0.2, 0.8), a file
  with a duplicated id, one with a null and an out-of-range probability, and one that
  does not have the expected columns.
\<close>

definition sample_gold :: "gold_row list" where
  "sample_gold = [\<lparr>gid = ''a'', disease = 0\<rparr>, \<lparr>gid = ''b'', disease = 1\<rparr>]"

definition sample_pred :: "pred_row list" where
  "sample_pred = [\<lparr>pid = ''a'', probability = Finite (2 / 10)\<rparr>,
                  \<lparr>pid = ''b'', probability = Finite (8 / 10)\<rparr>]"

definition sample_pred_dup :: "pred_row list" where
  "sample_pred_dup = [\<lparr>pid = ''a'', probability = Finite (2 / 10)\<rparr>,
                      \<lparr>pid = ''a'', probability = Finite (3 / 10)\<rparr>,
                      \<lparr>pid = ''b'', probability = Finite (8 / 10)\<rparr>]"

definition sample_pred_bad :: "pred_row list" where
  "sample_pred_bad = [\<lparr>pid = ''a'', probability = NaN\<rparr>,
                      \<lparr>pid = ''b'', probability = Finite (3 / 2)\<rparr>]"

definition sample_lib :: lib where
  "sample_lib =
     \<lparr>parse_gold = (\<lambda>s. if s = ''gold'' then Inr sample_gold
                         else Inl (ValueError ''Usecols do not match columns'')),
      parse_pred = (\<lambda>s. if s = ''pred'' then Inr sample_pred
                         else if s = ''dup'' then Inr sample_pred_dup
                         else if s = ''bad'' then Inr sample_pred_bad
                         else Inl (ValueError ''Usecols do not match columns'')),
      json_loads = (\<lambda>s. Inl (JSONDecodeError ''Expecting value'')),
      json_dumps = (\<lambda>j. ''json''),
      duplicate_msg = (\<lambda>p. ''Found duplicate ID(s)''),
      missing_msg = (\<lambda>g p. ''Found missing ID(s)''),
      unknown_msg = (\<lambda>g p. ''Found unknown ID(s)''),
      nan_msg = (\<lambda>c. ''probability column contains NaN value(s)''),
      range_msg = (\<lambda>c lo hi. ''probability values should be between 0 and 1''),
      roc_auc_score = (\<lambda>y s. if list_ex (\<lambda>x. x = NaN) s
                               then Inl (ValueError ''Input contains NaN.'')
                               else Inr (Finite 1)),
      precision_recall_curve = (\<lambda>y s. Inr ([Finite (1 / 2), Finite 1, Finite 1],
                                             [Finite 1, Finite 1, Finite 0])),
      auc = (\<lambda>x y. Inr (Finite 1))\<rparr>"

text \<open>
  A world with the goldstandard folder \<open>gs\<close> holding one file, and the files above. The
  file \<open>INVALID_predictions.txt\<close> carries the message of an earlier failure; the bytes of
  \<open>INVALID_bytes.txt\<close> are not UTF-8; no other path exists.
\<close>

definition sample_world :: world where
  "sample_world =
     \<lparr>files = [''gs/gold.csv'' \<mapsto> Text ''gold'',
               ''pred.csv'' \<mapsto> Text ''pred'',
               ''dup.csv'' \<mapsto> Text ''dup'',
               ''bad.csv'' \<mapsto> Text ''bad'',
               ''broken.csv'' \<mapsto> Text ''broken'',
               ''INVALID_predictions.txt'' \<mapsto> Text ''No predictions file found''],
      read_error = (\<lambda>path. if path = ''INVALID_bytes.txt''
                           then UnicodeDecodeError ''invalid start byte''
                           else no_such_file path),
      listing = (\<lambda>folder. if folder = ''gs'' then [''gs/gold.csv''] else []),
      stdout = []\<rparr>"

text \<open>
  The same world after a validator run that found the duplicated id, after a clean
  validator run, with a goldstandard file that does not have the expected columns, and
  with a file of an earlier failure whose message has 501 characters.
\<close>

definition sample_invalid_record :: "(string \<times> json) list" where
  "sample_invalid_record =
     [(''validation_status'', JStr ''INVALID''),
      (''validation_errors'', JStr ''Found duplicate ID(s)'')]"

definition sample_world_invalid :: world where
  "sample_world_invalid =
     sample_world\<lparr>files := (files sample_world)
                     (''results.json'' \<mapsto> Json (JObj sample_invalid_record))\<rparr>"

definition sample_validated_record :: "(string \<times> json) list" where
  "sample_validated_record =
     [(''validation_status'', JStr ''VALIDATED''),
      (''validation_errors'', JStr [])]"

definition sample_world_validated :: world where
  "sample_world_validated =
     sample_world\<lparr>files := (files sample_world)
                     (''results.json'' \<mapsto> Json (JObj sample_validated_record))\<rparr>"

definition sample_world_bad_gold :: world where
  "sample_world_bad_gold =
     sample_world\<lparr>files := (files sample_world)(''gs/gold.csv'' \<mapsto> Text ''broken'')\<rparr>"

definition sample_world_long :: world where
  "sample_world_long =
     sample_world\<lparr>files := (files sample_world)
                     (''INVALID_long.txt'' \<mapsto> Text (replicate 501 (CHR ''x'')))\<rparr>"

section \<open>Dictionaries, frames and branches\<close>

subsection \<open>Lookup after update\<close>

lemma dict_get_Nil [simp]: "dict_get [] k = None"
  by (simp add: dict_get_def)

lemma dict_get_Cons [simp]:
  "dict_get ((k', v) # d) k = (if k = k' then Some v else dict_get d k)"
  by (simp add: dict_get_def)

lemma dict_get_dict_set [simp]:
  "dict_get (dict_set k v d) k' = (if k' = k then Some v else dict_get d k')"
  by (induction d) (auto simp: dict_get_def)

lemma keys_dict_set: "fst ` set (dict_set k v d) = insert k (fst ` set d)"
proof (induction d)
  case Nil
  show ?case by simp
next
  case (Cons kv d)
  obtain k' v' where kv: "kv = (k', v')" by (cases kv)
  show ?case
  proof (cases "k' = k")
    case True
    then show ?thesis by (simp add: kv)
  next
    case False
    then show ?thesis using Cons.IH by (simp add: kv insert_commute)
  qed
qed

lemma dict_get_dict_update:
  "dict_get (dict_update d items) k =
     (case map_of (rev items) k of Some v \<Rightarrow> Some v | None \<Rightarrow> dict_get d k)"
proof (induction items arbitrary: d)
  case Nil
  then show ?case by simp
next
  case (Cons kv items)
  obtain k' v' where kv: "kv = (k', v')" by (cases kv)
  show ?case
    by (simp add: kv Cons.IH dict_get_dict_set map_add_def split: option.splits)
qed

lemma map_of_rev_distinct:
  "distinct (map fst xs) \<Longrightarrow> map_of (rev xs) k = map_of xs k"
  by (metis distinct_rev map_of_inject_set rev_map set_rev)

lemma dict_get_overlay:
  assumes "distinct (map fst ov)"
  shows "dict_get (dict_update d ov) k =
           (case dict_get ov k of Some v \<Rightarrow> Some v | None \<Rightarrow> dict_get d k)"
  unfolding dict_get_dict_update map_of_rev_distinct [OF assms]
  by (simp add: dict_get_def)


subsection \<open>What the steps read and change\<close>

lemma print_fields [simp]:
  "files (print l w) = files w"
  "read_error (print l w) = read_error w"
  "listing (print l w) = listing w"
  "stdout (print l w) = stdout w @ [l]"
  by (simp_all add: print_def)

lemma write_json_fields [simp]:
  "files (write_json path j w) = (files w)(path \<mapsto> Json j)"
  "read_error (write_json path j w) = read_error w"
  "listing (write_json path j w) = listing w"
  "stdout (write_json path j w) = stdout w"
  by (simp_all add: write_json_def)

lemma warn_unvalidated_fields [simp]:
  "files (warn_unvalidated vs w) = files w"
  "read_error (warn_unvalidated vs w) = read_error w"
  "listing (warn_unvalidated vs w) = listing w"
  by (simp_all add: warn_unvalidated_def)

lemma warn_unvalidated_truthy [simp]:
  "truthy_opt vs \<Longrightarrow> warn_unvalidated vs w = w"
  by (simp add: warn_unvalidated_def)

lemma no_such_file_is_FileNotFoundError [simp]: "is_FileNotFoundError (no_such_file path)"
  by (simp add: no_such_file_def)

lemma read_text_cong:
  assumes "files w' = files w" and "read_error w' = read_error w"
  shows "read_text lib w' path = read_text lib w path"
  by (simp only: read_text_def assms)

lemma read_csv_gold_cong:
  assumes "files w' = files w" and "read_error w' = read_error w"
  shows "read_csv_gold lib w' path = read_csv_gold lib w path"
  by (simp only: read_csv_gold_def read_text_cong [OF assms])

lemma read_csv_pred_cong:
  assumes "files w' = files w" and "read_error w' = read_error w"
  shows "read_csv_pred lib w' path = read_csv_pred lib w path"
  by (simp only: read_csv_pred_def read_text_cong [OF assms])

lemma score_cong:
  assumes "files w' = files w" and "read_error w' = read_error w"
  shows "score lib w' f p = score lib w f p"
  by (simp only: score_def read_csv_gold_cong [OF assms] read_csv_pred_cong [OF assms])

lemma load_results_cong:
  assumes "files w' = files w" and "read_error w' = read_error w"
  shows "load_results lib out w' = load_results lib out w"
  by (simp only: load_results_def assms)

lemma extract_gs_file_cong:
  "listing w' = listing w \<Longrightarrow> extract_gs_file w' g = extract_gs_file w g"
  by (simp add: extract_gs_file_def)

lemma extract_gs_file_warn [simp]:
  "extract_gs_file (warn_unvalidated vs w) g = extract_gs_file w g"
  by (rule extract_gs_file_cong) simp

lemma score_warn [simp]: "score lib (warn_unvalidated vs w) f p = score lib w f p"
  by (rule score_cong) simp_all

lemma extract_gs_file_cases:
  "extract_gs_file w g =
     (if length (listing w g) = 1 then Inr (hd (listing w g))
      else Inl (ValueError (''Expected exactly one goldstandard file in folder. Got ''
                            @ str_of_nat (length (listing w g)) @ ''. Exiting.'')))"
  by (cases "listing w g") (simp_all add: extract_gs_file_def Let_def)

subsection \<open>The shape of the records\<close>

lemma mk_dict_status [simp]:
  "mk_dict [(''score_status'', a), (''score_errors'', b)]
     = [(''score_status'', a), (''score_errors'', b)]"
  by (simp add: mk_dict_def)

lemma mk_dict_status_scores [simp]:
  "mk_dict [(''score_status'', a), (''score_errors'', b), (''auc_roc'', c), (''auprc'', d)]
     = [(''score_status'', a), (''score_errors'', b), (''auc_roc'', c), (''auprc'', d)]"
  by (simp add: mk_dict_def)

lemma mk_dict_validation [simp]:
  "mk_dict [(''validation_status'', a), (''validation_errors'', b)]
     = [(''validation_status'', a), (''validation_errors'', b)]"
  by (simp add: mk_dict_def)

lemma mk_dict_scores [simp]:
  "mk_dict [(''auc_roc'', a), (''auprc'', b)] = [(''auc_roc'', a), (''auprc'', b)]"
  by (simp add: mk_dict_def)

lemma score_shape:
  assumes "score lib w f p = Inr m"
  shows "\<exists>roc a. m = [(''auc_roc'', JFloat roc), (''auprc'', JFloat a)]"
  using assms
  by (auto simp: score_def Let_def split: sum.splits prod.splits)

subsection \<open>The branches of the scorer\<close>

lemma score_main_not_loaded:
  "load_results lib out w = Inl e \<Longrightarrow> score_main lib p g out w = Inl e"
  by (simp add: score_main_def)

lemma score_main_dict:
  "load_results lib out w = Inr (JObj d) \<Longrightarrow>
   score_main lib p g out w =
     (case attempt_scoring lib p g (dict_get d ''validation_status'')
             (warn_unvalidated (dict_get d ''validation_status'') w) of
        Inl e \<Rightarrow> Inl e
      | Inr (status, errors, scores, w2) \<Rightarrow>
          Inr (print status (write_json out
                 (JObj (dict_update d (mk_dict ([(''score_status'', JStr status),
                                                 (''score_errors'', JStr errors)] @ scores))))
                 w2)))"
  by (simp add: score_main_def Let_def split: sum.splits prod.splits)

lemma score_main_not_dict:
  "load_results lib out w = Inr j \<Longrightarrow> \<forall>d. j \<noteq> JObj d \<Longrightarrow>
   score_main lib p g out w = Inl (no_attribute_get j)"
  by (cases j) (simp_all add: score_main_def)

lemma truthy_opt_INVALID [simp]: "truthy_opt (Some (JStr ''INVALID''))"
  by (simp add: truthy_opt_def)

lemma score_main_invalid:
  assumes "load_results lib out w = Inr (JObj d)"
      and "dict_get d ''validation_status'' = Some (JStr ''INVALID'')"
  shows "score_main lib p g out w =
           Inr (print ''INVALID'' (write_json out
                 (JObj (dict_update d
                    [(''score_status'', JStr ''INVALID''),
                     (''score_errors'',
                      JStr ''Submission could not be evaluated due to validation errors.'')]))
                 w))"
  by (simp add: score_main_dict [OF assms(1)] assms(2) attempt_scoring_def)

lemma score_main_attempt:
  assumes "load_results lib out w = Inr (JObj d)"
      and "dict_get d ''validation_status'' \<noteq> Some (JStr ''INVALID'')"
      and "extract_gs_file w g = Inr f"
  shows "score_main lib p g out w =
           (case score lib w f p of
              Inr scores \<Rightarrow>
                Inr (print ''SCORED'' (write_json out
                  (JObj (dict_update d (mk_dict ([(''score_status'', JStr ''SCORED''),
                                                  (''score_errors'', JStr [])] @ scores))))
                  (warn_unvalidated (dict_get d ''validation_status'') w)))
            | Inl err \<Rightarrow>
                if is_ValueError err then
                  Inr (print ''INVALID'' (write_json out
                    (JObj (dict_update d
                       [(''score_status'', JStr ''INVALID''),
                        (''score_errors'',
                         JStr ''Error encountered during scoring; submission not evaluated.'')]))
                    (print (''Error encountered: '' @ exn_str err)
                       (warn_unvalidated (dict_get d ''validation_status'') w))))
                else Inl err)"
  by (simp add: score_main_dict [OF assms(1)] assms(2) assms(3) attempt_scoring_def
        split: sum.splits)

lemma score_main_no_gold_file:
  assumes "load_results lib out w = Inr (JObj d)"
      and "dict_get d ''validation_status'' \<noteq> Some (JStr ''INVALID'')"
      and "extract_gs_file w g = Inl e"
  shows "score_main lib p g out w = Inl e"
  by (simp add: score_main_dict [OF assms(1)] assms(2) assms(3) attempt_scoring_def)


subsection \<open>The runs of the scorer that end normally\<close>

lemma recorded_written [simp]:
  "recorded (print l (write_json out (JObj r) w)) out k = dict_get r k"
  by (simp add: recorded_def)

lemma dict_get_status_overlay:
  "dict_get (dict_update d [(''score_status'', a), (''score_errors'', b)]) k =
     (if k = ''score_errors'' then Some b
      else if k = ''score_status'' then Some a
      else dict_get d k)"
  by (simp add: dict_get_dict_set)

lemma dict_get_scored_overlay:
  "dict_get (dict_update d [(''score_status'', a), (''score_errors'', b),
                            (''auc_roc'', x), (''auprc'', y)]) k =
     (if k = ''auprc'' then Some y
      else if k = ''auc_roc'' then Some x
      else if k = ''score_errors'' then Some b
      else if k = ''score_status'' then Some a
      else dict_get d k)"
  by (simp add: dict_get_dict_set)

lemma score_main_InrE:
  assumes "score_main lib p g out w = Inr w'"
  obtains
    (invalid) d where
      "load_results lib out w = Inr (JObj d)"
      "dict_get d ''validation_status'' = Some (JStr ''INVALID'')"
      "w' = print ''INVALID'' (write_json out
              (JObj (dict_update d
                 [(''score_status'', JStr ''INVALID''),
                  (''score_errors'',
                   JStr ''Submission could not be evaluated due to validation errors.'')]))
              w)"
  | (scored) d f roc a where
      "load_results lib out w = Inr (JObj d)"
      "dict_get d ''validation_status'' \<noteq> Some (JStr ''INVALID'')"
      "extract_gs_file w g = Inr f"
      "score lib w f p = Inr [(''auc_roc'', JFloat roc), (''auprc'', JFloat a)]"
      "w' = print ''SCORED'' (write_json out
              (JObj (dict_update d
                 [(''score_status'', JStr ''SCORED''), (''score_errors'', JStr []),
                  (''auc_roc'', JFloat roc), (''auprc'', JFloat a)]))
              (warn_unvalidated (dict_get d ''validation_status'') w))"
  | (failed) d f e where
      "load_results lib out w = Inr (JObj d)"
      "dict_get d ''validation_status'' \<noteq> Some (JStr ''INVALID'')"
      "extract_gs_file w g = Inr f"
      "score lib w f p = Inl e"
      "is_ValueError e"
      "w' = print ''INVALID'' (write_json out
              (JObj (dict_update d
                 [(''score_status'', JStr ''INVALID''),
                  (''score_errors'',
                   JStr ''Error encountered during scoring; submission not evaluated.'')]))
              (print (''Error encountered: '' @ exn_str e)
                 (warn_unvalidated (dict_get d ''validation_status'') w)))"
proof (cases "load_results lib out w")
  case (Inl e)
  with assms show ?thesis by (simp add: score_main_not_loaded)
next
  case (Inr j)
  show ?thesis
  proof (cases "\<exists>d. j = JObj d")
    case False
    with Inr assms show ?thesis by (simp add: score_main_not_dict)
  next
    case True
    then obtain d where j: "j = JObj d" by blast
    have ld: "load_results lib out w = Inr (JObj d)" using Inr j by simp
    show ?thesis
    proof (cases "dict_get d ''validation_status'' = Some (JStr ''INVALID'')")
      case True
      from score_main_invalid [OF ld True, of p g] assms invalid [OF ld True]
      show ?thesis by simp
    next
      case nv: False
      show ?thesis
      proof (cases "extract_gs_file w g")
        case (Inl e)
        from score_main_no_gold_file [OF ld nv Inl, of p] assms show ?thesis by simp
      next
        case gf: (Inr f)
        note sm = score_main_attempt [OF ld nv gf, of p]
        show ?thesis
        proof (cases "score lib w f p")
          case (Inl e)
          with sm assms have ve: "is_ValueError e" by (simp split: if_splits)
          from sm assms Inl ve failed [OF ld nv gf Inl ve] show ?thesis by simp
        next
          case (Inr m)
          from score_shape [OF Inr] obtain roc a
            where m: "m = [(''auc_roc'', JFloat roc), (''auprc'', JFloat a)]" by blast
          from sm assms Inr m scored [OF ld nv gf Inr [unfolded m]] show ?thesis by simp
        qed
      qed
    qed
  qed
qed


subsection \<open>The runs of the validator\<close>


lemma validate_main_Inr:
  assumes "collect_errors lib p g w = Inr es"
  shows "validate_main lib p g out w =
           Inr (print (if str_join [CHR 0x0A] es \<noteq> [] then ''INVALID'' else ''VALIDATED'')
                  (write_json out
                     (JObj [(''validation_status'',
                             JStr (if str_join [CHR 0x0A] es \<noteq> [] then ''INVALID''
                                   else ''VALIDATED'')),
                            (''validation_errors'',
                             JStr (if length (str_join [CHR 0x0A] es) > 500
                                   then take 496 (str_join [CHR 0x0A] es) @ ''...''
                                   else str_join [CHR 0x0A] es))])
                     w))"
  by (simp add: validate_main_def assms Let_def)

lemma validate_main_invalid:
  assumes "collect_errors lib p g w = Inr es" and "str_join [CHR 0x0A] es \<noteq> []"
  shows "\<exists>w'. validate_main lib p g out w = Inr w'
           \<and> recorded w' out ''validation_status'' = Some (JStr ''INVALID'')
           \<and> stdout w' = stdout w @ [''INVALID'']"
  by (simp add: validate_main_Inr [OF assms(1)] assms(2))

lemma str_join_nonempty:
  "es \<noteq> [] \<Longrightarrow> [] \<notin> set es \<Longrightarrow> str_join sep es \<noteq> []"
proof (cases es)
  case Nil
  then show "es \<noteq> [] \<Longrightarrow> ?thesis" by simp
next
  case (Cons x xs)
  then show "[] \<notin> set es \<Longrightarrow> ?thesis" by (cases xs) auto
qed




lemma collect_errors_sentinel:
  assumes "str_contains ''INVALID'' p" and "files w p = Some c"
  shows "collect_errors lib p g w = Inr [text_of lib c]"
  by (simp add: collect_errors_def read_text_def assms)

lemma collect_errors_checked:
  assumes "\<not> str_contains ''INVALID'' p" and "extract_gs_file w g = Inr f"
  shows "collect_errors lib p g w = validate lib w f p"
  by (simp add: collect_errors_def assms)

lemma validate_loaded:
  assumes "read_csv_gold lib w f = Inr gold" and "read_csv_pred lib w p = Inr pred"
  shows "validate lib w f p =
           Inr (filter (\<lambda>s. s \<noteq> [])
                  [check_duplicate_keys lib (map pid pred),
                   check_missing_keys lib (map gid gold) (map pid pred),
                   check_unknown_keys lib (map gid gold) (map pid pred),
                   check_nan_values lib (map probability pred),
                   check_values_range lib (map probability pred) 0 1])"
  by (simp add: validate_def assms)

lemma checks_pass_conformant:
  assumes "conformant gold pred"
  shows "check_duplicate_keys lib (map pid pred) = []"
    and "check_missing_keys lib (map gid gold) (map pid pred) = []"
    and "check_unknown_keys lib (map gid gold) (map pid pred) = []"
    and "check_nan_values lib (map probability pred) = []"
    and "check_values_range lib (map probability pred) 0 1 = []"
proof -
  from assms have ids: "set (map pid pred) = set (map gid gold)"
    and dist: "distinct (map pid pred)"
    by (simp_all add: conformant_def)
  have "\<exists>x. probability r = Finite x \<and> 0 \<le> x \<and> x \<le> 1" if "r \<in> set pred" for r
    using assms that by (cases "probability r") (auto simp: conformant_def list_all_iff)
  then have probs: "\<forall>r\<in>set pred. \<exists>x. probability r = Finite x \<and> 0 \<le> x \<and> x \<le> 1"
    by blast
  show "check_duplicate_keys lib (map pid pred) = []"
    using dist by (simp add: check_duplicate_keys_def)
  show "check_missing_keys lib (map gid gold) (map pid pred) = []"
    using ids by (auto simp: check_missing_keys_def list_ex_iff)
  show "check_unknown_keys lib (map gid gold) (map pid pred) = []"
    using ids by (auto simp: check_unknown_keys_def list_ex_iff)
  show "check_nan_values lib (map probability pred) = []"
    using probs by (auto simp: check_nan_values_def list_ex_iff)
  show "check_values_range lib (map probability pred) 0 1 = []"
    using probs by (fastforce simp: check_values_range_def list_ex_iff float_of_int_def)
qed

lemma mem_filter_nonempty:
  "m \<in> set xs \<Longrightarrow> m \<noteq> [] \<Longrightarrow> m \<in> set (filter (\<lambda>s. s \<noteq> []) xs)"
  by simp

lemma empty_not_in_filter_nonempty: "[] \<notin> set (filter (\<lambda>s. s \<noteq> []) xs)"
  by simp

subsection \<open>The runs that abort\<close>



lemma extract_gs_file_returns:
  "length (listing w g) = 1 \<Longrightarrow> extract_gs_file w g = Inr (listing w g ! 0)"
  by (simp add: extract_gs_file_def Let_def)

lemma read_text_unreadable: "files w path = None \<Longrightarrow> read_text lib w path = Inl (read_error w path)"
  by (simp add: read_text_def)

lemma read_text_readable: "files w path = Some c \<Longrightarrow> read_text lib w path = Inr (text_of lib c)"
  by (simp add: read_text_def)



lemma load_results_stored:
  "files w out = Some (Json j) \<Longrightarrow> load_results lib out w = Inr j"
  by (simp add: load_results_def json_load_def)

lemma load_results_parsed:
  "files w out = Some (Text s) \<Longrightarrow> json_loads lib s = Inr j
   \<Longrightarrow> load_results lib out w = Inr j"
  by (simp add: load_results_def json_load_def)

lemma load_results_missing:
  "files w out = None \<Longrightarrow> is_FileNotFoundError (read_error w out)
   \<Longrightarrow> load_results lib out w
       = Inr (JObj [(''validation_status'', JStr []), (''validation_errors'', JStr [])])"
  by (simp add: load_results_def blank_results_def)

lemma load_results_undecodable:
  "files w out = Some (Text s) \<Longrightarrow> json_loads lib s = Inl (JSONDecodeError m)
   \<Longrightarrow> load_results lib out w
       = Inr (JObj [(''validation_status'', JStr []), (''validation_errors'', JStr [])])"
  by (simp add: load_results_def json_load_def blank_results_def)




lemma str_join_concat:
  "str_join sep es =
     (case es of [] \<Rightarrow> [] | x # xs \<Rightarrow> x @ concat (map (\<lambda>y. sep @ y) xs))"
  by (induction sep es rule: str_join.induct) simp_all

subsection \<open>Unfolding the sample data\<close>

lemmas sample_defs =
  sample_lib_def sample_world_def sample_gold_def sample_pred_def sample_pred_dup_def
  sample_pred_bad_def sample_invalid_record_def sample_world_invalid_def
  sample_validated_record_def sample_world_validated_def sample_world_bad_gold_def
  sample_world_long_def

lemmas run_defs =
  extract_gs_file_def validate_main_def collect_errors_def validate_def
  read_csv_gold_def read_csv_pred_def read_text_def text_of_def no_such_file_def
  score_main_def load_results_def json_load_def warn_unvalidated_def truthy_opt_def
  attempt_scoring_def score_def merge_left_def recorded_def
  check_duplicate_keys_def check_missing_keys_def check_unknown_keys_def
  check_nan_values_def check_values_range_def float_of_int_def

section \<open>The claims of the specification\<close>

text \<open>
  Claim C1. When the results record that the scorer loads has \<open>validation_status\<close> equal to
  \<open>INVALID\<close>, the scorer ends normally, records \<open>score_status = INVALID\<close> with the message
  "Submission could not be evaluated due to validation errors.", and leaves every other
  key of the loaded record as it was, \<open>validation_status\<close> and \<open>validation_errors\<close> among
  them. The score function is not called: the outcome is the same for every predictions
  file and every library (parsers and metrics) that loads the same results record.
\<close>

theorem invalid_submission_not_scored:
  assumes "load_results lib out w = Inr (JObj d)"
      and "dict_get d ''validation_status'' = Some (JStr ''INVALID'')"
  shows "\<exists>w'. score_main lib p g out w = Inr w'
           \<and> recorded w' out ''score_status'' = Some (JStr ''INVALID'')
           \<and> recorded w' out ''score_errors''
               = Some (JStr ''Submission could not be evaluated due to validation errors.'')
           \<and> recorded w' out ''validation_status'' = Some (JStr ''INVALID'')
           \<and> recorded w' out ''validation_errors'' = dict_get d ''validation_errors''
           \<and> (\<forall>k. k \<noteq> ''score_status'' \<and> k \<noteq> ''score_errors''
                  \<longrightarrow> recorded w' out k = dict_get d k)
           \<and> stdout w' = stdout w @ [''INVALID'']
           \<and> (\<forall>lib' p'. load_results lib' out w = load_results lib out w
                  \<longrightarrow> score_main lib' p' g out w = Inr w')"
proof -
  let ?w' = "print ''INVALID'' (write_json out
               (JObj (dict_update d
                  [(''score_status'', JStr ''INVALID''),
                   (''score_errors'',
                    JStr ''Submission could not be evaluated due to validation errors.'')]))
               w)"
  have run: "score_main lib p g out w = Inr ?w'"
    by (rule score_main_invalid [OF assms])
  have indep: "score_main lib' p' g out w = Inr ?w'"
    if "load_results lib' out w = load_results lib out w" for lib' p'
    using that assms by (simp add: score_main_invalid)
  have rec: "recorded ?w' out k =
               (if k = ''score_errors''
                then Some (JStr ''Submission could not be evaluated due to validation errors.'')
                else if k = ''score_status'' then Some (JStr ''INVALID'')
                else dict_get d k)" for k
    by (simp add: dict_get_dict_set)
  show ?thesis
  proof (intro exI conjI)
    show "score_main lib p g out w = Inr ?w'" by (rule run)
    show "recorded ?w' out ''score_status'' = Some (JStr ''INVALID'')"
      by (simp add: rec)
    show "recorded ?w' out ''score_errors''
            = Some (JStr ''Submission could not be evaluated due to validation errors.'')"
      by (simp add: rec)
    show "recorded ?w' out ''validation_status'' = Some (JStr ''INVALID'')"
      by (simp add: rec assms(2))
    show "recorded ?w' out ''validation_errors'' = dict_get d ''validation_errors''"
      by (simp add: rec)
    show "\<forall>k. k \<noteq> ''score_status'' \<and> k \<noteq> ''score_errors''
             \<longrightarrow> recorded ?w' out k = dict_get d k"
      by (simp add: rec)
    show "stdout ?w' = stdout w @ [''INVALID'']" by simp
    show "\<forall>lib' p'. load_results lib' out w = load_results lib out w
             \<longrightarrow> score_main lib' p' g out w = Inr ?w'"
      using indep by blast
  qed
qed

theorem invalid_submission_not_scored_witness:
  "load_results sample_lib ''results.json'' sample_world_invalid
     = Inr (JObj sample_invalid_record)
   \<and> dict_get sample_invalid_record ''validation_status'' = Some (JStr ''INVALID'')
   \<and> (\<exists>w'. score_main sample_lib ''dup.csv'' ''gs'' ''results.json'' sample_world_invalid = Inr w'
          \<and> recorded w' ''results.json'' ''score_status'' = Some (JStr ''INVALID'')
          \<and> recorded w' ''results.json'' ''validation_status'' = Some (JStr ''INVALID'')
          \<and> recorded w' ''results.json'' ''validation_errors''
              = Some (JStr ''Found duplicate ID(s)''))"
proof -
  have h1: "load_results sample_lib ''results.json'' sample_world_invalid
              = Inr (JObj sample_invalid_record)"
    by (simp add: sample_defs load_results_def json_load_def)
  have h2: "dict_get sample_invalid_record ''validation_status'' = Some (JStr ''INVALID'')"
    by (simp add: sample_invalid_record_def)
  have h3: "dict_get sample_invalid_record ''validation_errors''
              = Some (JStr ''Found duplicate ID(s)'')"
    by (simp add: sample_invalid_record_def)
  from invalid_submission_not_scored [OF h1 h2, of "''dup.csv''" "''gs''"]
  obtain w' where
    "score_main sample_lib ''dup.csv'' ''gs'' ''results.json'' sample_world_invalid = Inr w'"
    "recorded w' ''results.json'' ''score_status'' = Some (JStr ''INVALID'')"
    "recorded w' ''results.json'' ''validation_status'' = Some (JStr ''INVALID'')"
    "recorded w' ''results.json'' ''validation_errors''
       = dict_get sample_invalid_record ''validation_errors''"
    by blast
  with h1 h2 h3 show ?thesis by simp
qed

text \<open>
  Claim C2. In the validator driver the errors are joined with newlines: the first error,
  then each further error after a newline character. The text recorded as
  \<open>validation_errors\<close> is this joined text (cut as in C6), and the status recorded and
  printed is \<open>INVALID\<close> if and only if the joined text is not empty, otherwise \<open>VALIDATED\<close>.
  For a fully conformant prediction set (the ids of the predictions are those of the
  goldstandard, no id twice, every probability a number in [0,1]) \<open>validate\<close> returns the
  empty list and the status is \<open>VALIDATED\<close>. The five checks are those of the spec.
\<close>

theorem status_invalid_iff_errors:
  "(\<forall>es. collect_errors lib p g w = Inr es
      \<longrightarrow> (\<exists>w'. validate_main lib p g out w = Inr w'
             \<and> (recorded w' out ''validation_status'' = Some (JStr ''INVALID'')
                  \<longleftrightarrow> str_join [CHR 0x0A] es \<noteq> [])
             \<and> (recorded w' out ''validation_status'' = Some (JStr ''VALIDATED'')
                  \<longleftrightarrow> str_join [CHR 0x0A] es = [])
             \<and> stdout w' = stdout w
                   @ [if str_join [CHR 0x0A] es \<noteq> [] then ''INVALID'' else ''VALIDATED'']
             \<and> recorded w' out ''validation_errors''
                 = Some (JStr (if 500 < length (str_join [CHR 0x0A] es)
                               then take 496 (str_join [CHR 0x0A] es) @ ''...''
                               else str_join [CHR 0x0A] es))))
   \<and> (\<forall>es. str_join [CHR 0x0A] es
              = (case es of [] \<Rightarrow> [] | x # xs \<Rightarrow> x @ concat (map (\<lambda>y. CHR 0x0A # y) xs)))
   \<and> (\<forall>x y. str_join [CHR 0x0A] [x, y] = x @ [CHR 0x0A] @ y)
   \<and> (\<forall>x y z. str_join [CHR 0x0A] [x, y, z] = x @ [CHR 0x0A] @ y @ [CHR 0x0A] @ z)
   \<and> (\<forall>f gold pred.
         \<not> str_contains ''INVALID'' p
         \<and> extract_gs_file w g = Inr f
         \<and> read_csv_gold lib w f = Inr gold
         \<and> read_csv_pred lib w p = Inr pred
         \<and> conformant gold pred
      \<longrightarrow> validate lib w f p = Inr []
          \<and> (\<exists>w'. validate_main lib p g out w = Inr w'
                 \<and> recorded w' out ''validation_status'' = Some (JStr ''VALIDATED'')
                 \<and> recorded w' out ''validation_errors'' = Some (JStr [])
                 \<and> stdout w' = stdout w @ [''VALIDATED'']))"
proof (intro conjI allI impI)
  fix es
  assume "collect_errors lib p g w = Inr es"
  from validate_main_Inr [OF this]
  show "\<exists>w'. validate_main lib p g out w = Inr w'
             \<and> (recorded w' out ''validation_status'' = Some (JStr ''INVALID'')
                  \<longleftrightarrow> str_join [CHR 0x0A] es \<noteq> [])
             \<and> (recorded w' out ''validation_status'' = Some (JStr ''VALIDATED'')
                  \<longleftrightarrow> str_join [CHR 0x0A] es = [])
             \<and> stdout w' = stdout w
                   @ [if str_join [CHR 0x0A] es \<noteq> [] then ''INVALID'' else ''VALIDATED'']
             \<and> recorded w' out ''validation_errors''
                 = Some (JStr (if 500 < length (str_join [CHR 0x0A] es)
                               then take 496 (str_join [CHR 0x0A] es) @ ''...''
                               else str_join [CHR 0x0A] es))"
    by simp
next
  fix es :: "string list"
  show "str_join [CHR 0x0A] es
          = (case es of [] \<Rightarrow> [] | x # xs \<Rightarrow> x @ concat (map (\<lambda>y. CHR 0x0A # y) xs))"
  proof -
    have "(@) [CHR 0x0A] = (#) (CHR 0x0A)"
      by (rule ext) simp
    then show ?thesis
      by (cases es) (simp_all add: str_join_concat [of "[CHR 0x0A]"])
  qed
next
  fix x y :: string
  show "str_join [CHR 0x0A] [x, y] = x @ [CHR 0x0A] @ y" by simp
next
  fix x y z :: string
  show "str_join [CHR 0x0A] [x, y, z] = x @ [CHR 0x0A] @ y @ [CHR 0x0A] @ z" by simp
next
  fix f gold pred
  assume h: "\<not> str_contains ''INVALID'' p
         \<and> extract_gs_file w g = Inr f
         \<and> read_csv_gold lib w f = Inr gold
         \<and> read_csv_pred lib w p = Inr pred
         \<and> conformant gold pred"
  then have c: "conformant gold pred"
    and ld: "read_csv_gold lib w f = Inr gold" "read_csv_pred lib w p = Inr pred"
    by simp_all
  have v: "validate lib w f p = Inr []"
    by (simp add: validate_loaded [OF ld] checks_pass_conformant [OF c])
  then show "validate lib w f p = Inr []" .
  from h v have "collect_errors lib p g w = Inr []"
    by (simp add: collect_errors_checked)
  from validate_main_Inr [OF this]
  show "\<exists>w'. validate_main lib p g out w = Inr w'
                 \<and> recorded w' out ''validation_status'' = Some (JStr ''VALIDATED'')
                 \<and> recorded w' out ''validation_errors'' = Some (JStr [])
                 \<and> stdout w' = stdout w @ [''VALIDATED'']"
    by simp
qed

theorem status_invalid_iff_errors_witness:
  "\<not> str_contains ''INVALID'' ''pred.csv''
   \<and> extract_gs_file sample_world ''gs'' = Inr ''gs/gold.csv''
   \<and> read_csv_gold sample_lib sample_world ''gs/gold.csv'' = Inr sample_gold
   \<and> read_csv_pred sample_lib sample_world ''pred.csv'' = Inr sample_pred
   \<and> conformant sample_gold sample_pred
   \<and> validate sample_lib sample_world ''gs/gold.csv'' ''pred.csv'' = Inr []
   \<and> (\<exists>w'. validate_main sample_lib ''pred.csv'' ''gs'' ''results.json'' sample_world = Inr w'
          \<and> recorded w' ''results.json'' ''validation_status'' = Some (JStr ''VALIDATED'')
          \<and> recorded w' ''results.json'' ''validation_errors'' = Some (JStr []))
   \<and> collect_errors sample_lib ''dup.csv'' ''gs'' sample_world = Inr [''Found duplicate ID(s)'']
   \<and> (\<exists>w'. validate_main sample_lib ''dup.csv'' ''gs'' ''results.json'' sample_world = Inr w'
          \<and> recorded w' ''results.json'' ''validation_status'' = Some (JStr ''INVALID'')
          \<and> stdout w' = [''INVALID''])
   \<and> collect_errors sample_lib ''bad.csv'' ''gs'' sample_world
       = Inr [''probability column contains NaN value(s)'',
              ''probability values should be between 0 and 1'']
   \<and> (\<exists>w'. validate_main sample_lib ''bad.csv'' ''gs'' ''results.json'' sample_world = Inr w'
          \<and> recorded w' ''results.json'' ''validation_status'' = Some (JStr ''INVALID'')
          \<and> recorded w' ''results.json'' ''validation_errors''
              = Some (JStr (''probability column contains NaN value(s)'' @ [CHR 0x0A]
                            @ ''probability values should be between 0 and 1'')))"
proof -
  have h1: "\<not> str_contains ''INVALID'' ''pred.csv''"
    by simp
  have h2: "extract_gs_file sample_world ''gs'' = Inr ''gs/gold.csv''"
    by (simp add: sample_world_def extract_gs_file_def)
  have h3: "read_csv_gold sample_lib sample_world ''gs/gold.csv'' = Inr sample_gold"
    by (simp add: sample_lib_def sample_world_def read_csv_gold_def read_text_def text_of_def)
  have h4: "read_csv_pred sample_lib sample_world ''pred.csv'' = Inr sample_pred"
    by (simp add: sample_lib_def sample_world_def read_csv_pred_def read_text_def text_of_def)
  have h5: "conformant sample_gold sample_pred"
    by (simp add: conformant_def sample_gold_def sample_pred_def)
  have h6: "collect_errors sample_lib ''dup.csv'' ''gs'' sample_world
              = Inr [''Found duplicate ID(s)'']"
    by (simp add: sample_defs run_defs)
  have h7: "collect_errors sample_lib ''bad.csv'' ''gs'' sample_world
              = Inr [''probability column contains NaN value(s)'',
                     ''probability values should be between 0 and 1'']"
    by (simp add: sample_defs run_defs)
  have so: "stdout sample_world = []"
    by (simp add: sample_world_def)
  note inst = status_invalid_iff_errors
    [of sample_lib _ "''gs''" sample_world "''results.json''"]
  from inst [of "''pred.csv''"] h1 h2 h3 h4 h5
  have a: "validate sample_lib sample_world ''gs/gold.csv'' ''pred.csv'' = Inr []
           \<and> (\<exists>w'. validate_main sample_lib ''pred.csv'' ''gs'' ''results.json'' sample_world
                     = Inr w'
                  \<and> recorded w' ''results.json'' ''validation_status''
                      = Some (JStr ''VALIDATED'')
                  \<and> recorded w' ''results.json'' ''validation_errors'' = Some (JStr []))"
    by blast
  from inst [of "''dup.csv''"] h6
  have b: "\<exists>w'. validate_main sample_lib ''dup.csv'' ''gs'' ''results.json'' sample_world = Inr w'
             \<and> (recorded w' ''results.json'' ''validation_status'' = Some (JStr ''INVALID'')
                  \<longleftrightarrow> str_join [CHR 0x0A] [''Found duplicate ID(s)''] \<noteq> [])
             \<and> stdout w' = stdout sample_world
                   @ [if str_join [CHR 0x0A] [''Found duplicate ID(s)''] \<noteq> [] then ''INVALID''
                      else ''VALIDATED'']"
    by blast
  then have b': "\<exists>w'. validate_main sample_lib ''dup.csv'' ''gs'' ''results.json'' sample_world
                     = Inr w'
             \<and> recorded w' ''results.json'' ''validation_status'' = Some (JStr ''INVALID'')
             \<and> stdout w' = [''INVALID'']"
    by (simp add: so)
  let ?n = "''probability column contains NaN value(s)''"
  let ?r = "''probability values should be between 0 and 1''"
  from inst [of "''bad.csv''"]
  have j: "str_join [CHR 0x0A] [?n, ?r] = ?n @ [CHR 0x0A] @ ?r"
    by blast
  have jl: "\<not> 500 < length (?n @ [CHR 0x0A] @ ?r)" and jn: "?n @ [CHR 0x0A] @ ?r \<noteq> []"
    by simp_all
  from inst [of "''bad.csv''"] h7
  have "\<exists>w'. validate_main sample_lib ''bad.csv'' ''gs'' ''results.json'' sample_world = Inr w'
          \<and> (recorded w' ''results.json'' ''validation_status'' = Some (JStr ''INVALID'')
               \<longleftrightarrow> str_join [CHR 0x0A] [?n, ?r] \<noteq> [])
          \<and> recorded w' ''results.json'' ''validation_errors''
              = Some (JStr (if 500 < length (str_join [CHR 0x0A] [?n, ?r])
                            then take 496 (str_join [CHR 0x0A] [?n, ?r]) @ ''...''
                            else str_join [CHR 0x0A] [?n, ?r]))"
    by blast
  then have c: "\<exists>w'. validate_main sample_lib ''bad.csv'' ''gs'' ''results.json'' sample_world
                    = Inr w'
          \<and> recorded w' ''results.json'' ''validation_status'' = Some (JStr ''INVALID'')
          \<and> recorded w' ''results.json'' ''validation_errors''
              = Some (JStr (?n @ [CHR 0x0A] @ ?r))"
    unfolding j using jl jn by simp
  from h1 h2 h3 h4 h5 h6 h7 a b' c show ?thesis by blast
qed

text \<open>
  Claim C3. When both files load, \<open>validate\<close> returns the results of the five checks in the
  order duplicate-key, missing-key, unknown-key, NaN, range, without the empty strings:
  at most five strings, none empty. A duplicated id, a null probability, a probability
  below 0 or above 1, a missing id and an unknown id each put the message of their check
  into the list, where the library's message for it is not empty; and a list that is not
  empty makes the driver record and print \<open>INVALID\<close>. The five checks are those of the spec.
\<close>

theorem five_checks_in_order:
  assumes "read_csv_gold lib w f = Inr gold" and "read_csv_pred lib w p = Inr pred"
  shows "\<exists>es. validate lib w f p = Inr es
           \<and> es = filter (\<lambda>s. s \<noteq> [])
                    [check_duplicate_keys lib (map pid pred),
                     check_missing_keys lib (map gid gold) (map pid pred),
                     check_unknown_keys lib (map gid gold) (map pid pred),
                     check_nan_values lib (map probability pred),
                     check_values_range lib (map probability pred) 0 1]
           \<and> length es \<le> 5
           \<and> [] \<notin> set es
           \<and> (\<not> distinct (map pid pred) \<and> duplicate_msg lib (map pid pred) \<noteq> []
                \<longrightarrow> duplicate_msg lib (map pid pred) \<in> set es)
           \<and> ((\<exists>r\<in>set pred. probability r = NaN) \<and> nan_msg lib (map probability pred) \<noteq> []
                \<longrightarrow> nan_msg lib (map probability pred) \<in> set es)
           \<and> ((\<exists>r\<in>set pred. \<exists>x. probability r = Finite x \<and> (x < 0 \<or> 1 < x))
                \<and> range_msg lib (map probability pred) 0 1 \<noteq> []
                \<longrightarrow> range_msg lib (map probability pred) 0 1 \<in> set es)
           \<and> ((\<exists>k\<in>set (map gid gold). k \<notin> set (map pid pred))
                \<and> missing_msg lib (map gid gold) (map pid pred) \<noteq> []
                \<longrightarrow> missing_msg lib (map gid gold) (map pid pred) \<in> set es)
           \<and> ((\<exists>k\<in>set (map pid pred). k \<notin> set (map gid gold))
                \<and> unknown_msg lib (map gid gold) (map pid pred) \<noteq> []
                \<longrightarrow> unknown_msg lib (map gid gold) (map pid pred) \<in> set es)
           \<and> (es \<noteq> [] \<and> \<not> str_contains ''INVALID'' p \<and> extract_gs_file w g = Inr f
                \<longrightarrow> (\<exists>w'. validate_main lib p g out w = Inr w'
                         \<and> recorded w' out ''validation_status'' = Some (JStr ''INVALID'')
                         \<and> stdout w' = stdout w @ [''INVALID'']))"
proof -
  let ?checks = "[check_duplicate_keys lib (map pid pred),
                  check_missing_keys lib (map gid gold) (map pid pred),
                  check_unknown_keys lib (map gid gold) (map pid pred),
                  check_nan_values lib (map probability pred),
                  check_values_range lib (map probability pred) 0 1]"
  let ?es = "filter (\<lambda>s. s \<noteq> []) ?checks"
  have v: "validate lib w f p = Inr ?es"
    by (rule validate_loaded [OF assms])
  have len: "length ?es \<le> 5"
    by (rule order_trans [OF length_filter_le]) simp
  have ne: "[] \<notin> set ?es"
    by (rule empty_not_in_filter_nonempty)
  have mem: "m \<in> set ?es" if "m \<in> set ?checks" and "m \<noteq> []" for m
    using that by (rule mem_filter_nonempty)
  have dup: "duplicate_msg lib (map pid pred) \<in> set ?es"
    if "\<not> distinct (map pid pred)" and "duplicate_msg lib (map pid pred) \<noteq> []"
    using that by (intro mem) (simp_all add: check_duplicate_keys_def)
  have nan: "nan_msg lib (map probability pred) \<in> set ?es"
    if "\<exists>r\<in>set pred. probability r = NaN" and "nan_msg lib (map probability pred) \<noteq> []"
  proof -
    from that(1) have "check_nan_values lib (map probability pred)
                         = nan_msg lib (map probability pred)"
      by (force simp: check_nan_values_def list_ex_iff)
    with that(2) show ?thesis by (intro mem) simp_all
  qed
  have rng: "range_msg lib (map probability pred) 0 1 \<in> set ?es"
    if "\<exists>r\<in>set pred. \<exists>x. probability r = Finite x \<and> (x < 0 \<or> 1 < x)"
       and "range_msg lib (map probability pred) 0 1 \<noteq> []"
  proof -
    from that(1) obtain r x where "r \<in> set pred" "probability r = Finite x" "x < 0 \<or> 1 < x"
      by blast
    then have "\<exists>y\<in>set (map probability pred).
                 float_less y (float_of_int 0) \<or> float_less (float_of_int 1) y"
      by (intro bexI [of _ "Finite x"]) (auto simp: float_of_int_def image_iff intro: rev_bexI)
    then have "check_values_range lib (map probability pred) 0 1
                 = range_msg lib (map probability pred) 0 1"
      by (simp add: check_values_range_def list_ex_iff)
    with that(2) show ?thesis by (intro mem) simp_all
  qed
  have mis: "missing_msg lib (map gid gold) (map pid pred) \<in> set ?es"
    if "\<exists>k\<in>set (map gid gold). k \<notin> set (map pid pred)"
       and "missing_msg lib (map gid gold) (map pid pred) \<noteq> []"
  proof -
    from that(1) have "check_missing_keys lib (map gid gold) (map pid pred)
                         = missing_msg lib (map gid gold) (map pid pred)"
      by (simp add: check_missing_keys_def list_ex_iff)
    with that(2) show ?thesis by (intro mem) simp_all
  qed
  have unk: "unknown_msg lib (map gid gold) (map pid pred) \<in> set ?es"
    if "\<exists>k\<in>set (map pid pred). k \<notin> set (map gid gold)"
       and "unknown_msg lib (map gid gold) (map pid pred) \<noteq> []"
  proof -
    from that(1) have "check_unknown_keys lib (map gid gold) (map pid pred)
                         = unknown_msg lib (map gid gold) (map pid pred)"
      by (simp add: check_unknown_keys_def list_ex_iff)
    with that(2) show ?thesis by (intro mem) simp_all
  qed
  have main: "\<exists>w'. validate_main lib p g out w = Inr w'
                \<and> recorded w' out ''validation_status'' = Some (JStr ''INVALID'')
                \<and> stdout w' = stdout w @ [''INVALID'']"
    if "?es \<noteq> []" and "\<not> str_contains ''INVALID'' p" and "extract_gs_file w g = Inr f"
  proof -
    have ce: "collect_errors lib p g w = Inr ?es"
      using collect_errors_checked [OF that(2,3)] v by simp
    have "str_join [CHR 0x0A] ?es \<noteq> []"
      by (rule str_join_nonempty [OF that(1) ne])
    then show ?thesis by (rule validate_main_invalid [OF ce])
  qed
  from v len ne dup nan rng mis unk main show ?thesis
    by (intro exI [of _ ?es] conjI impI) blast+
qed

theorem five_checks_in_order_witness:
  "read_csv_gold sample_lib sample_world ''gs/gold.csv'' = Inr sample_gold
   \<and> read_csv_pred sample_lib sample_world ''bad.csv'' = Inr sample_pred_bad
   \<and> read_csv_pred sample_lib sample_world ''dup.csv'' = Inr sample_pred_dup
   \<and> \<not> distinct (map pid sample_pred_dup)
   \<and> \<not> str_contains ''INVALID'' ''bad.csv''
   \<and> extract_gs_file sample_world ''gs'' = Inr ''gs/gold.csv''
   \<and> validate sample_lib sample_world ''gs/gold.csv'' ''bad.csv''
       = Inr [''probability column contains NaN value(s)'',
              ''probability values should be between 0 and 1'']
   \<and> (\<exists>w'. validate_main sample_lib ''bad.csv'' ''gs'' ''results.json'' sample_world = Inr w'
          \<and> recorded w' ''results.json'' ''validation_status'' = Some (JStr ''INVALID''))
   \<and> (\<exists>es. validate sample_lib sample_world ''gs/gold.csv'' ''dup.csv'' = Inr es
          \<and> ''Found duplicate ID(s)'' \<in> set es)"
proof -
  have h1: "read_csv_gold sample_lib sample_world ''gs/gold.csv'' = Inr sample_gold"
    by (simp add: sample_lib_def sample_world_def read_csv_gold_def read_text_def text_of_def)
  have h2: "read_csv_pred sample_lib sample_world ''bad.csv'' = Inr sample_pred_bad"
    by (simp add: sample_lib_def sample_world_def read_csv_pred_def read_text_def text_of_def)
  have h3: "\<not> str_contains ''INVALID'' ''bad.csv''"
    by simp
  have h4: "extract_gs_file sample_world ''gs'' = Inr ''gs/gold.csv''"
    by (simp add: sample_world_def extract_gs_file_def)
  have h5: "read_csv_pred sample_lib sample_world ''dup.csv'' = Inr sample_pred_dup"
    by (simp add: sample_lib_def sample_world_def read_csv_pred_def read_text_def text_of_def)
  have h6: "\<not> distinct (map pid sample_pred_dup)"
    by (simp add: sample_pred_dup_def)
  have h7: "duplicate_msg sample_lib (map pid sample_pred_dup) = ''Found duplicate ID(s)''"
    by (simp add: sample_lib_def)
  have c1: "check_duplicate_keys sample_lib (map pid sample_pred_bad) = []"
    by (simp add: sample_pred_bad_def check_duplicate_keys_def)
  have c2: "check_missing_keys sample_lib (map gid sample_gold) (map pid sample_pred_bad) = []"
    by (simp add: sample_pred_bad_def sample_gold_def check_missing_keys_def)
  have c3: "check_unknown_keys sample_lib (map gid sample_gold) (map pid sample_pred_bad) = []"
    by (simp add: sample_pred_bad_def sample_gold_def check_unknown_keys_def)
  have c4: "check_nan_values sample_lib (map probability sample_pred_bad)
              = ''probability column contains NaN value(s)''"
    by (simp add: sample_pred_bad_def sample_lib_def check_nan_values_def)
  have c5: "check_values_range sample_lib (map probability sample_pred_bad) 0 1
              = ''probability values should be between 0 and 1''"
    by (simp add: sample_pred_bad_def sample_lib_def check_values_range_def float_of_int_def)
  have ev: "filter (\<lambda>s. s \<noteq> [])
              [check_duplicate_keys sample_lib (map pid sample_pred_bad),
               check_missing_keys sample_lib (map gid sample_gold) (map pid sample_pred_bad),
               check_unknown_keys sample_lib (map gid sample_gold) (map pid sample_pred_bad),
               check_nan_values sample_lib (map probability sample_pred_bad),
               check_values_range sample_lib (map probability sample_pred_bad) 0 1]
            = [''probability column contains NaN value(s)'',
               ''probability values should be between 0 and 1'']"
    unfolding c1 c2 c3 c4 c5 by simp
  from five_checks_in_order [OF h1 h2, of "''gs''" "''results.json''"]
  obtain es where
    v: "validate sample_lib sample_world ''gs/gold.csv'' ''bad.csv'' = Inr es"
    and e: "es = filter (\<lambda>s. s \<noteq> [])
              [check_duplicate_keys sample_lib (map pid sample_pred_bad),
               check_missing_keys sample_lib (map gid sample_gold) (map pid sample_pred_bad),
               check_unknown_keys sample_lib (map gid sample_gold) (map pid sample_pred_bad),
               check_nan_values sample_lib (map probability sample_pred_bad),
               check_values_range sample_lib (map probability sample_pred_bad) 0 1]"
    and m: "es \<noteq> [] \<and> \<not> str_contains ''INVALID'' ''bad.csv''
              \<and> extract_gs_file sample_world ''gs'' = Inr ''gs/gold.csv''
            \<longrightarrow> (\<exists>w'. validate_main sample_lib ''bad.csv'' ''gs'' ''results.json'' sample_world
                       = Inr w'
                     \<and> recorded w' ''results.json'' ''validation_status''
                         = Some (JStr ''INVALID'')
                     \<and> stdout w' = stdout sample_world @ [''INVALID''])"
    by (elim exE conjE)
  have es: "es = [''probability column contains NaN value(s)'',
                  ''probability values should be between 0 and 1'']"
    by (simp only: e ev)
  then have "es \<noteq> []" by simp
  with m h3 h4
  have bad: "\<exists>w'. validate_main sample_lib ''bad.csv'' ''gs'' ''results.json'' sample_world
               = Inr w'
          \<and> recorded w' ''results.json'' ''validation_status'' = Some (JStr ''INVALID'')"
    by blast
  from five_checks_in_order [OF h1 h5, of "''gs''" "''results.json''"]
  obtain ds where
    dv: "validate sample_lib sample_world ''gs/gold.csv'' ''dup.csv'' = Inr ds"
    and dm: "\<not> distinct (map pid sample_pred_dup)
               \<and> duplicate_msg sample_lib (map pid sample_pred_dup) \<noteq> []
             \<longrightarrow> duplicate_msg sample_lib (map pid sample_pred_dup) \<in> set ds"
    by (elim exE conjE)
  from dm h6 have "''Found duplicate ID(s)'' \<in> set ds"
    unfolding h7 by simp
  with dv
  have dup: "\<exists>es. validate sample_lib sample_world ''gs/gold.csv'' ''dup.csv'' = Inr es
               \<and> ''Found duplicate ID(s)'' \<in> set es"
    by blast
  from h1 h2 h3 h4 h5 h6 v [unfolded es] bad dup show ?thesis
    by (intro conjI)
qed

text \<open>
  Claim C4. Let the loaded record not say \<open>INVALID\<close> and the goldstandard file be found.
  When the score function returns, the run ends normally, records \<open>score_status = SCORED\<close>,
  an empty \<open>score_errors\<close> and the two metrics, and prints \<open>SCORED\<close>. When it raises a
  \<open>ValueError\<close>, the error is caught: the run ends normally, the status stays \<open>INVALID\<close>,
  the fixed message is recorded, the line "Error encountered: ..." with the error's text
  is printed before the status, and the overlay holds only \<open>score_status\<close> and
  \<open>score_errors\<close>, so that \<open>auc_roc\<close> and \<open>auprc\<close> keep whatever the loaded record had. Any
  other exception is not caught and nothing is recorded. So, for every run that ends
  normally, the recorded \<open>score_status\<close> is \<open>SCORED\<close> exactly when the score function was
  called and returned, and otherwise it is \<open>INVALID\<close>.
\<close>

theorem scored_iff_score_returns:
  "(\<forall>w'. score_main lib p g out w = Inr w' \<longrightarrow>
      (recorded w' out ''score_status'' = Some (JStr ''SCORED'')
         \<longleftrightarrow> (\<exists>d f m. load_results lib out w = Inr (JObj d)
                     \<and> dict_get d ''validation_status'' \<noteq> Some (JStr ''INVALID'')
                     \<and> extract_gs_file w g = Inr f
                     \<and> score lib w f p = Inr m))
      \<and> (recorded w' out ''score_status'' = Some (JStr ''SCORED'')
           \<or> recorded w' out ''score_status'' = Some (JStr ''INVALID'')))
   \<and> (\<forall>d f. load_results lib out w = Inr (JObj d)
            \<and> dict_get d ''validation_status'' \<noteq> Some (JStr ''INVALID'')
            \<and> extract_gs_file w g = Inr f
      \<longrightarrow>
        (\<forall>m. score lib w f p = Inr m \<longrightarrow>
           (\<exists>w'. score_main lib p g out w = Inr w'
              \<and> recorded w' out ''score_status'' = Some (JStr ''SCORED'')
              \<and> recorded w' out ''score_errors'' = Some (JStr [])
              \<and> recorded w' out ''auc_roc'' = dict_get m ''auc_roc''
              \<and> recorded w' out ''auprc'' = dict_get m ''auprc''
              \<and> dict_get m ''auc_roc'' \<noteq> None
              \<and> dict_get m ''auprc'' \<noteq> None
              \<and> files w' = (files w)(out \<mapsto> Json (JObj (dict_update d
                    ([(''score_status'', JStr ''SCORED''), (''score_errors'', JStr [])] @ m))))
              \<and> stdout w' = stdout (warn_unvalidated (dict_get d ''validation_status'') w)
                               @ [''SCORED'']))
      \<and> (\<forall>e. score lib w f p = Inl e \<and> is_ValueError e \<longrightarrow>
           (\<exists>w'. score_main lib p g out w = Inr w'
              \<and> recorded w' out ''score_status'' = Some (JStr ''INVALID'')
              \<and> recorded w' out ''score_errors''
                  = Some (JStr ''Error encountered during scoring; submission not evaluated.'')
              \<and> stdout w' = stdout (warn_unvalidated (dict_get d ''validation_status'') w)
                               @ [''Error encountered: '' @ exn_str e, ''INVALID'']
              \<and> files w' = (files w)(out \<mapsto> Json (JObj (dict_update d
                    [(''score_status'', JStr ''INVALID''),
                     (''score_errors'',
                      JStr ''Error encountered during scoring; submission not evaluated.'')])))
              \<and> recorded w' out ''auc_roc'' = dict_get d ''auc_roc''
              \<and> recorded w' out ''auprc'' = dict_get d ''auprc''))
      \<and> (\<forall>e. score lib w f p = Inl e \<and> \<not> is_ValueError e \<longrightarrow>
           score_main lib p g out w = Inl e))"
proof (intro conjI allI impI)
  fix w'
  assume run: "score_main lib p g out w = Inr w'"
  from run show "recorded w' out ''score_status'' = Some (JStr ''SCORED'')
         \<longleftrightarrow> (\<exists>d f m. load_results lib out w = Inr (JObj d)
                     \<and> dict_get d ''validation_status'' \<noteq> Some (JStr ''INVALID'')
                     \<and> extract_gs_file w g = Inr f
                     \<and> score lib w f p = Inr m)"
  proof (cases rule: score_main_InrE)
    case (invalid d)
    then show ?thesis by simp
  next
    case (scored d f roc a)
    then show ?thesis by simp
  next
    case (failed d f e)
    then show ?thesis by simp
  qed
  from run show "recorded w' out ''score_status'' = Some (JStr ''SCORED'')
           \<or> recorded w' out ''score_status'' = Some (JStr ''INVALID'')"
    by (cases rule: score_main_InrE) simp_all
next
  fix d f m
  assume h: "load_results lib out w = Inr (JObj d)
            \<and> dict_get d ''validation_status'' \<noteq> Some (JStr ''INVALID'')
            \<and> extract_gs_file w g = Inr f"
     and sc: "score lib w f p = Inr m"
  from h have ld: "load_results lib out w = Inr (JObj d)"
    and nv: "dict_get d ''validation_status'' \<noteq> Some (JStr ''INVALID'')"
    and gf: "extract_gs_file w g = Inr f"
    by simp_all
  from score_shape [OF sc] obtain roc a
    where m: "m = [(''auc_roc'', JFloat roc), (''auprc'', JFloat a)]" by blast
  show "\<exists>w'. score_main lib p g out w = Inr w'
              \<and> recorded w' out ''score_status'' = Some (JStr ''SCORED'')
              \<and> recorded w' out ''score_errors'' = Some (JStr [])
              \<and> recorded w' out ''auc_roc'' = dict_get m ''auc_roc''
              \<and> recorded w' out ''auprc'' = dict_get m ''auprc''
              \<and> dict_get m ''auc_roc'' \<noteq> None
              \<and> dict_get m ''auprc'' \<noteq> None
              \<and> files w' = (files w)(out \<mapsto> Json (JObj (dict_update d
                    ([(''score_status'', JStr ''SCORED''), (''score_errors'', JStr [])] @ m))))
              \<and> stdout w' = stdout (warn_unvalidated (dict_get d ''validation_status'') w)
                               @ [''SCORED'']"
    by (simp add: score_main_attempt [OF ld nv gf] sc m)
next
  fix d f e
  assume h: "load_results lib out w = Inr (JObj d)
            \<and> dict_get d ''validation_status'' \<noteq> Some (JStr ''INVALID'')
            \<and> extract_gs_file w g = Inr f"
     and sc: "score lib w f p = Inl e \<and> is_ValueError e"
  from h have ld: "load_results lib out w = Inr (JObj d)"
    and nv: "dict_get d ''validation_status'' \<noteq> Some (JStr ''INVALID'')"
    and gf: "extract_gs_file w g = Inr f"
    by simp_all
  show "\<exists>w'. score_main lib p g out w = Inr w'
              \<and> recorded w' out ''score_status'' = Some (JStr ''INVALID'')
              \<and> recorded w' out ''score_errors''
                  = Some (JStr ''Error encountered during scoring; submission not evaluated.'')
              \<and> stdout w' = stdout (warn_unvalidated (dict_get d ''validation_status'') w)
                               @ [''Error encountered: '' @ exn_str e, ''INVALID'']
              \<and> files w' = (files w)(out \<mapsto> Json (JObj (dict_update d
                    [(''score_status'', JStr ''INVALID''),
                     (''score_errors'',
                      JStr ''Error encountered during scoring; submission not evaluated.'')])))
              \<and> recorded w' out ''auc_roc'' = dict_get d ''auc_roc''
              \<and> recorded w' out ''auprc'' = dict_get d ''auprc''"
    using sc by (simp add: score_main_attempt [OF ld nv gf])
next
  fix d f e
  assume h: "load_results lib out w = Inr (JObj d)
            \<and> dict_get d ''validation_status'' \<noteq> Some (JStr ''INVALID'')
            \<and> extract_gs_file w g = Inr f"
     and sc: "score lib w f p = Inl e \<and> \<not> is_ValueError e"
  from h have ld: "load_results lib out w = Inr (JObj d)"
    and nv: "dict_get d ''validation_status'' \<noteq> Some (JStr ''INVALID'')"
    and gf: "extract_gs_file w g = Inr f"
    by simp_all
  show "score_main lib p g out w = Inl e"
    using sc by (simp add: score_main_attempt [OF ld nv gf])
qed

theorem scored_iff_score_returns_witness:
  "files sample_world_validated ''results.json'' = Some (Json (JObj sample_validated_record))
   \<and> load_results sample_lib ''results.json'' sample_world_validated
       = Inr (JObj sample_validated_record)
   \<and> extract_gs_file sample_world_validated ''gs'' = Inr ''gs/gold.csv''
   \<and> score sample_lib sample_world_validated ''gs/gold.csv'' ''pred.csv''
       = Inr [(''auc_roc'', JFloat (Finite 1)), (''auprc'', JFloat (Finite 1))]
   \<and> (\<exists>w'. score_main sample_lib ''pred.csv'' ''gs'' ''results.json'' sample_world_validated
             = Inr w'
          \<and> recorded w' ''results.json'' ''score_status'' = Some (JStr ''SCORED'')
          \<and> recorded w' ''results.json'' ''score_errors'' = Some (JStr [])
          \<and> recorded w' ''results.json'' ''auc_roc'' = Some (JFloat (Finite 1))
          \<and> recorded w' ''results.json'' ''auprc'' = Some (JFloat (Finite 1))
          \<and> stdout w' = [''SCORED''])
   \<and> score sample_lib sample_world_validated ''gs/gold.csv'' ''bad.csv''
       = Inl (ValueError ''Input contains NaN.'')
   \<and> (\<exists>w'. score_main sample_lib ''bad.csv'' ''gs'' ''results.json'' sample_world_validated
             = Inr w'
          \<and> recorded w' ''results.json'' ''score_status'' = Some (JStr ''INVALID'')
          \<and> recorded w' ''results.json'' ''score_errors''
              = Some (JStr ''Error encountered during scoring; submission not evaluated.'')
          \<and> stdout w' = [''Error encountered: Input contains NaN.'', ''INVALID'']
          \<and> recorded w' ''results.json'' ''auc_roc'' = None)
   \<and> score sample_lib sample_world_validated ''gs/gold.csv'' ''missing.csv''
       = Inl (no_such_file ''missing.csv'')
   \<and> score_main sample_lib ''missing.csv'' ''gs'' ''results.json'' sample_world_validated
       = Inl (no_such_file ''missing.csv'')"
proof -
  have st: "files sample_world_validated ''results.json''
              = Some (Json (JObj sample_validated_record))"
    by (simp add: sample_world_validated_def)
  have ld: "load_results sample_lib ''results.json'' sample_world_validated
              = Inr (JObj sample_validated_record)"
    by (simp add: sample_defs load_results_def json_load_def)
  have nv: "dict_get sample_validated_record ''validation_status'' \<noteq> Some (JStr ''INVALID'')"
    by (simp add: sample_validated_record_def)
  have gf: "extract_gs_file sample_world_validated ''gs'' = Inr ''gs/gold.csv''"
    by (simp add: sample_defs extract_gs_file_def)
  have s1: "score sample_lib sample_world_validated ''gs/gold.csv'' ''pred.csv''
              = Inr [(''auc_roc'', JFloat (Finite 1)), (''auprc'', JFloat (Finite 1))]"
    by (simp add: sample_defs run_defs)
  have s2: "score sample_lib sample_world_validated ''gs/gold.csv'' ''bad.csv''
              = Inl (ValueError ''Input contains NaN.'')"
    by (simp add: sample_defs run_defs)
  have s3: "score sample_lib sample_world_validated ''gs/gold.csv'' ''missing.csv''
              = Inl (no_such_file ''missing.csv'')"
    by (simp add: sample_defs run_defs)
  have tr: "warn_unvalidated (dict_get sample_validated_record ''validation_status'')
              sample_world_validated = sample_world_validated"
    by (simp add: sample_validated_record_def warn_unvalidated_def truthy_opt_def)
  have so: "stdout sample_world_validated = []"
    by (simp add: sample_defs)
  have none: "dict_get sample_validated_record ''auc_roc'' = None"
    by (simp add: sample_validated_record_def)
  have nve: "\<not> is_ValueError (no_such_file ''missing.csv'')"
    by (simp add: no_such_file_def)
  note inst = scored_iff_score_returns
    [of sample_lib _ "''gs''" "''results.json''" sample_world_validated]
  from inst [of "''pred.csv''"] ld nv gf s1
  have "\<exists>w'. score_main sample_lib ''pred.csv'' ''gs'' ''results.json'' sample_world_validated
               = Inr w'
          \<and> recorded w' ''results.json'' ''score_status'' = Some (JStr ''SCORED'')
          \<and> recorded w' ''results.json'' ''score_errors'' = Some (JStr [])
          \<and> recorded w' ''results.json'' ''auc_roc''
              = dict_get [(''auc_roc'', JFloat (Finite 1)), (''auprc'', JFloat (Finite 1))]
                  ''auc_roc''
          \<and> recorded w' ''results.json'' ''auprc''
              = dict_get [(''auc_roc'', JFloat (Finite 1)), (''auprc'', JFloat (Finite 1))]
                  ''auprc''
          \<and> stdout w' = stdout (warn_unvalidated
                                   (dict_get sample_validated_record ''validation_status'')
                                   sample_world_validated) @ [''SCORED'']"
    by blast
  then have a: "\<exists>w'. score_main sample_lib ''pred.csv'' ''gs'' ''results.json''
                       sample_world_validated = Inr w'
          \<and> recorded w' ''results.json'' ''score_status'' = Some (JStr ''SCORED'')
          \<and> recorded w' ''results.json'' ''score_errors'' = Some (JStr [])
          \<and> recorded w' ''results.json'' ''auc_roc'' = Some (JFloat (Finite 1))
          \<and> recorded w' ''results.json'' ''auprc'' = Some (JFloat (Finite 1))
          \<and> stdout w' = [''SCORED'']"
    by (simp add: tr so)
  have ve: "is_ValueError (ValueError ''Input contains NaN.'')"
    by simp
  from inst [of "''bad.csv''"] ld nv gf s2 ve
  have "\<exists>w'. score_main sample_lib ''bad.csv'' ''gs'' ''results.json'' sample_world_validated
               = Inr w'
          \<and> recorded w' ''results.json'' ''score_status'' = Some (JStr ''INVALID'')
          \<and> recorded w' ''results.json'' ''score_errors''
              = Some (JStr ''Error encountered during scoring; submission not evaluated.'')
          \<and> stdout w' = stdout (warn_unvalidated
                                   (dict_get sample_validated_record ''validation_status'')
                                   sample_world_validated)
                           @ [''Error encountered: '' @ exn_str (ValueError ''Input contains NaN.''),
                              ''INVALID'']
          \<and> recorded w' ''results.json'' ''auc_roc''
              = dict_get sample_validated_record ''auc_roc''"
    by blast
  then have b: "\<exists>w'. score_main sample_lib ''bad.csv'' ''gs'' ''results.json''
                       sample_world_validated = Inr w'
          \<and> recorded w' ''results.json'' ''score_status'' = Some (JStr ''INVALID'')
          \<and> recorded w' ''results.json'' ''score_errors''
              = Some (JStr ''Error encountered during scoring; submission not evaluated.'')
          \<and> stdout w' = [''Error encountered: Input contains NaN.'', ''INVALID'']
          \<and> recorded w' ''results.json'' ''auc_roc'' = None"
    by (simp add: tr so none)
  from inst [of "''missing.csv''"] ld nv gf s3 nve
  have c: "score_main sample_lib ''missing.csv'' ''gs'' ''results.json'' sample_world_validated
             = Inl (no_such_file ''missing.csv'')"
    by blast
  from st ld gf s1 a s2 b s3 c show ?thesis by (intro conjI)
qed

text \<open>
  Claim C5. The record the scorer starts from is the one stored in the results file: the
  JSON value written there, or what the parser makes of its text. It is the blank
  record with two empty status fields when the file does not exist or its text does
  not parse as JSON. Whenever the scorer then ends normally (the record says \<open>INVALID\<close>,
  or the goldstandard file is found and the score function returns or raises a
  \<open>ValueError\<close>), it overwrites the file with that record updated by an overlay: a key of
  the overlay has the overlay's value, every other key keeps the value it had. The
  overlay always has \<open>score_status\<close> and \<open>score_errors\<close>, and no key besides these and the
  two metrics, so the validation fields are retained.
\<close>

theorem scorer_read_merge_write:
  "(\<forall>j. files w out = Some (Json j) \<longrightarrow> load_results lib out w = Inr j)
   \<and> (\<forall>s j. files w out = Some (Text s) \<and> json_loads lib s = Inr j
          \<longrightarrow> load_results lib out w = Inr j)
   \<and> (files w out = None \<and> is_FileNotFoundError (read_error w out)
          \<longrightarrow> load_results lib out w
              = Inr (JObj [(''validation_status'', JStr []), (''validation_errors'', JStr [])]))
   \<and> (\<forall>s m. files w out = Some (Text s) \<and> json_loads lib s = Inl (JSONDecodeError m)
          \<longrightarrow> load_results lib out w
              = Inr (JObj [(''validation_status'', JStr []), (''validation_errors'', JStr [])]))
   \<and> (\<forall>d. load_results lib out w = Inr (JObj d)
            \<and> (dict_get d ''validation_status'' = Some (JStr ''INVALID'')
                 \<or> (\<exists>f. extract_gs_file w g = Inr f
                         \<and> (\<forall>e. score lib w f p = Inl e \<longrightarrow> is_ValueError e)))
          \<longrightarrow> (\<exists>w' ov. score_main lib p g out w = Inr w'
                 \<and> files w' = (files w)(out \<mapsto> Json (JObj (dict_update d ov)))
                 \<and> (\<forall>k. recorded w' out k
                            = (case dict_get ov k of Some v \<Rightarrow> Some v | None \<Rightarrow> dict_get d k))
                 \<and> dict_get ov ''score_status'' \<noteq> None
                 \<and> dict_get ov ''score_errors'' \<noteq> None
                 \<and> fst ` set ov \<subseteq> {''score_status'', ''score_errors'', ''auc_roc'', ''auprc''}
                 \<and> recorded w' out ''validation_status'' = dict_get d ''validation_status''
                 \<and> recorded w' out ''validation_errors'' = dict_get d ''validation_errors''))
   \<and> (\<forall>w'. score_main lib p g out w = Inr w' \<longrightarrow>
         (\<exists>d ov. load_results lib out w = Inr (JObj d)
           \<and> files w' = (files w)(out \<mapsto> Json (JObj (dict_update d ov)))
           \<and> (\<forall>k. recorded w' out k
                      = (case dict_get ov k of Some v \<Rightarrow> Some v | None \<Rightarrow> dict_get d k))
           \<and> dict_get ov ''score_status'' \<noteq> None
           \<and> dict_get ov ''score_errors'' \<noteq> None
           \<and> fst ` set ov \<subseteq> {''score_status'', ''score_errors'', ''auc_roc'', ''auprc''}
           \<and> recorded w' out ''validation_status'' = dict_get d ''validation_status''
           \<and> recorded w' out ''validation_errors'' = dict_get d ''validation_errors''
           \<and> (files w out = None
                 \<or> (\<exists>s m. files w out = Some (Text s)
                          \<and> json_loads lib s = Inl (JSONDecodeError m))
               \<longrightarrow> d = [(''validation_status'', JStr []), (''validation_errors'', JStr [])])))"
proof -
  have merged: "\<exists>ov. files w' = (files w)(out \<mapsto> Json (JObj (dict_update d ov)))
           \<and> (\<forall>k. recorded w' out k
                      = (case dict_get ov k of Some v \<Rightarrow> Some v | None \<Rightarrow> dict_get d k))
           \<and> dict_get ov ''score_status'' \<noteq> None
           \<and> dict_get ov ''score_errors'' \<noteq> None
           \<and> fst ` set ov \<subseteq> {''score_status'', ''score_errors'', ''auc_roc'', ''auprc''}
           \<and> recorded w' out ''validation_status'' = dict_get d ''validation_status''
           \<and> recorded w' out ''validation_errors'' = dict_get d ''validation_errors''"
    if w': "w' = print st (write_json out (JObj (dict_update d items)) w0)"
       and w0: "files w0 = files w"
       and items: "distinct (map fst items)"
                  "dict_get items ''score_status'' \<noteq> None"
                  "dict_get items ''score_errors'' \<noteq> None"
                  "dict_get items ''validation_status'' = None"
                  "dict_get items ''validation_errors'' = None"
                  "fst ` set items \<subseteq> {''score_status'', ''score_errors'', ''auc_roc'', ''auprc''}"
    for w' d items st w0
  proof (intro exI [of _ items] conjI allI)
    show "files w' = (files w)(out \<mapsto> Json (JObj (dict_update d items)))"
      by (simp add: w' w0)
    show "recorded w' out k
            = (case dict_get items k of Some v \<Rightarrow> Some v | None \<Rightarrow> dict_get d k)" for k
      unfolding w' recorded_written by (rule dict_get_overlay [OF items(1)])
    then show "recorded w' out ''validation_status'' = dict_get d ''validation_status''"
      and "recorded w' out ''validation_errors'' = dict_get d ''validation_errors''"
      by (simp_all add: items)
  qed (use items in simp_all)
  have after: "\<exists>d ov. load_results lib out w = Inr (JObj d)
           \<and> files w' = (files w)(out \<mapsto> Json (JObj (dict_update d ov)))
           \<and> (\<forall>k. recorded w' out k
                      = (case dict_get ov k of Some v \<Rightarrow> Some v | None \<Rightarrow> dict_get d k))
           \<and> dict_get ov ''score_status'' \<noteq> None
           \<and> dict_get ov ''score_errors'' \<noteq> None
           \<and> fst ` set ov \<subseteq> {''score_status'', ''score_errors'', ''auc_roc'', ''auprc''}
           \<and> recorded w' out ''validation_status'' = dict_get d ''validation_status''
           \<and> recorded w' out ''validation_errors'' = dict_get d ''validation_errors''"
    if run: "score_main lib p g out w = Inr w'" for w'
    using run
  proof (cases rule: score_main_InrE)
    case (invalid d)
    from merged [OF invalid(3)] invalid(1) show ?thesis by (simp; blast)
  next
    case (scored d f roc a)
    from merged [OF scored(5)] scored(1) show ?thesis by (simp; blast)
  next
    case (failed d f e)
    from merged [OF failed(6)] failed(1) show ?thesis by (simp; blast)
  qed
  have blank: "d = [(''validation_status'', JStr []), (''validation_errors'', JStr [])]"
    if "score_main lib p g out w = Inr w'"
       and "load_results lib out w = Inr (JObj d)"
       and "files w out = None
              \<or> (\<exists>s m. files w out = Some (Text s) \<and> json_loads lib s = Inl (JSONDecodeError m))"
    for w' d
    using that(2,3)
    by (auto simp: load_results_def json_load_def blank_results_def split: if_splits)
  have runs: "\<exists>w'. score_main lib p g out w = Inr w'"
    if ld: "load_results lib out w = Inr (JObj d)"
       and r: "dict_get d ''validation_status'' = Some (JStr ''INVALID'')
                 \<or> (\<exists>f. extract_gs_file w g = Inr f
                         \<and> (\<forall>e. score lib w f p = Inl e \<longrightarrow> is_ValueError e))"
    for d
  proof (cases "dict_get d ''validation_status'' = Some (JStr ''INVALID'')")
    case True
    then show ?thesis by (simp add: score_main_invalid [OF ld])
  next
    case nv: False
    with r obtain f where gf: "extract_gs_file w g = Inr f"
      and ok: "\<forall>e. score lib w f p = Inl e \<longrightarrow> is_ValueError e"
      by blast
    show ?thesis
      using ok by (cases "score lib w f p") (simp_all add: score_main_attempt [OF ld nv gf])
  qed
  show ?thesis
  proof (intro conjI allI impI)
    fix j assume "files w out = Some (Json j)"
    then show "load_results lib out w = Inr j" by (rule load_results_stored)
  next
    fix s j assume "files w out = Some (Text s) \<and> json_loads lib s = Inr j"
    then show "load_results lib out w = Inr j" by (simp add: load_results_parsed)
  next
    assume "files w out = None \<and> is_FileNotFoundError (read_error w out)"
    then show "load_results lib out w
              = Inr (JObj [(''validation_status'', JStr []), (''validation_errors'', JStr [])])"
      by (simp add: load_results_missing)
  next
    fix s m assume "files w out = Some (Text s) \<and> json_loads lib s = Inl (JSONDecodeError m)"
    then show "load_results lib out w
              = Inr (JObj [(''validation_status'', JStr []), (''validation_errors'', JStr [])])"
      by (simp add: load_results_undecodable [of w out s lib m])
  next
    fix d
    assume h: "load_results lib out w = Inr (JObj d)
            \<and> (dict_get d ''validation_status'' = Some (JStr ''INVALID'')
                 \<or> (\<exists>f. extract_gs_file w g = Inr f
                         \<and> (\<forall>e. score lib w f p = Inl e \<longrightarrow> is_ValueError e)))"
    then have ld: "load_results lib out w = Inr (JObj d)" by simp
    from h runs obtain w' where run: "score_main lib p g out w = Inr w'" by blast
    from after [OF run] ld run
    show "\<exists>w' ov. score_main lib p g out w = Inr w'
                 \<and> files w' = (files w)(out \<mapsto> Json (JObj (dict_update d ov)))
                 \<and> (\<forall>k. recorded w' out k
                            = (case dict_get ov k of Some v \<Rightarrow> Some v | None \<Rightarrow> dict_get d k))
                 \<and> dict_get ov ''score_status'' \<noteq> None
                 \<and> dict_get ov ''score_errors'' \<noteq> None
                 \<and> fst ` set ov \<subseteq> {''score_status'', ''score_errors'', ''auc_roc'', ''auprc''}
                 \<and> recorded w' out ''validation_status'' = dict_get d ''validation_status''
                 \<and> recorded w' out ''validation_errors'' = dict_get d ''validation_errors''"
      by auto
  next
    fix w' assume run: "score_main lib p g out w = Inr w'"
    from after [OF run] blank [OF run]
    show "\<exists>d ov. load_results lib out w = Inr (JObj d)
           \<and> files w' = (files w)(out \<mapsto> Json (JObj (dict_update d ov)))
           \<and> (\<forall>k. recorded w' out k
                      = (case dict_get ov k of Some v \<Rightarrow> Some v | None \<Rightarrow> dict_get d k))
           \<and> dict_get ov ''score_status'' \<noteq> None
           \<and> dict_get ov ''score_errors'' \<noteq> None
           \<and> fst ` set ov \<subseteq> {''score_status'', ''score_errors'', ''auc_roc'', ''auprc''}
           \<and> recorded w' out ''validation_status'' = dict_get d ''validation_status''
           \<and> recorded w' out ''validation_errors'' = dict_get d ''validation_errors''
           \<and> (files w out = None
                 \<or> (\<exists>s m. files w out = Some (Text s)
                          \<and> json_loads lib s = Inl (JSONDecodeError m))
               \<longrightarrow> d = [(''validation_status'', JStr []), (''validation_errors'', JStr [])])"
      by blast
  qed
qed

theorem scorer_read_merge_write_witness:
  "files sample_world_validated ''results.json'' = Some (Json (JObj sample_validated_record))
   \<and> load_results sample_lib ''results.json'' sample_world_validated
       = Inr (JObj sample_validated_record)
   \<and> (\<exists>w'. score_main sample_lib ''pred.csv'' ''gs'' ''results.json'' sample_world_validated
             = Inr w'
          \<and> recorded w' ''results.json'' ''validation_status'' = Some (JStr ''VALIDATED'')
          \<and> recorded w' ''results.json'' ''validation_errors'' = Some (JStr []))
   \<and> files sample_world ''results.json'' = None
   \<and> is_FileNotFoundError (read_error sample_world ''results.json'')
   \<and> load_results sample_lib ''results.json'' sample_world
       = Inr (JObj [(''validation_status'', JStr []), (''validation_errors'', JStr [])])
   \<and> (\<exists>w'. score_main sample_lib ''pred.csv'' ''gs'' ''results.json'' sample_world = Inr w'
          \<and> recorded w' ''results.json'' ''validation_status'' = Some (JStr [])
          \<and> recorded w' ''results.json'' ''validation_errors'' = Some (JStr []))"
proof -
  have st: "files sample_world_validated ''results.json''
              = Some (Json (JObj sample_validated_record))"
    by (simp add: sample_world_validated_def)
  have ab: "files sample_world ''results.json'' = None"
    by (simp add: sample_world_def)
  have nf: "is_FileNotFoundError (read_error sample_world ''results.json'')"
    by (simp add: sample_world_def)
  have gf1: "extract_gs_file sample_world_validated ''gs'' = Inr ''gs/gold.csv''"
    by (simp add: sample_defs extract_gs_file_def)
  have gf2: "extract_gs_file sample_world ''gs'' = Inr ''gs/gold.csv''"
    by (simp add: sample_defs extract_gs_file_def)
  have s1: "\<forall>e. score sample_lib sample_world_validated ''gs/gold.csv'' ''pred.csv'' = Inl e
              \<longrightarrow> is_ValueError e"
    by (simp add: sample_defs run_defs)
  have s2: "\<forall>e. score sample_lib sample_world ''gs/gold.csv'' ''pred.csv'' = Inl e
              \<longrightarrow> is_ValueError e"
    by (simp add: sample_defs run_defs)
  note i1 = scorer_read_merge_write
    [of sample_world_validated "''results.json''" sample_lib "''gs''" "''pred.csv''"]
  note i2 = scorer_read_merge_write
    [of sample_world "''results.json''" sample_lib "''gs''" "''pred.csv''"]
  from i1 [THEN conjunct1] st
  have ld1: "load_results sample_lib ''results.json'' sample_world_validated
               = Inr (JObj sample_validated_record)"
    by simp
  from i2 [THEN conjunct2, THEN conjunct2, THEN conjunct1] ab nf
  have ld2: "load_results sample_lib ''results.json'' sample_world
               = Inr (JObj [(''validation_status'', JStr []), (''validation_errors'', JStr [])])"
    by simp
  have c1: "load_results sample_lib ''results.json'' sample_world_validated
              = Inr (JObj sample_validated_record)
            \<and> (dict_get sample_validated_record ''validation_status'' = Some (JStr ''INVALID'')
                 \<or> (\<exists>f. extract_gs_file sample_world_validated ''gs'' = Inr f
                         \<and> (\<forall>e. score sample_lib sample_world_validated f ''pred.csv'' = Inl e
                                \<longrightarrow> is_ValueError e)))"
    using ld1 gf1 s1 by blast
  have c2: "load_results sample_lib ''results.json'' sample_world
              = Inr (JObj [(''validation_status'', JStr []), (''validation_errors'', JStr [])])
            \<and> (dict_get [(''validation_status'', JStr []), (''validation_errors'', JStr [])]
                  ''validation_status'' = Some (JStr ''INVALID'')
                 \<or> (\<exists>f. extract_gs_file sample_world ''gs'' = Inr f
                         \<and> (\<forall>e. score sample_lib sample_world f ''pred.csv'' = Inl e
                                \<longrightarrow> is_ValueError e)))"
    using ld2 gf2 s2 by blast
  note r1 = i1 [THEN conjunct2, THEN conjunct2, THEN conjunct2, THEN conjunct2,
                THEN conjunct1, rule_format, OF c1]
  note r2 = i2 [THEN conjunct2, THEN conjunct2, THEN conjunct2, THEN conjunct2,
                THEN conjunct1, rule_format, OF c2]
  from r1 obtain w1 where
    "score_main sample_lib ''pred.csv'' ''gs'' ''results.json'' sample_world_validated = Inr w1"
    "recorded w1 ''results.json'' ''validation_status''
       = dict_get sample_validated_record ''validation_status''"
    "recorded w1 ''results.json'' ''validation_errors''
       = dict_get sample_validated_record ''validation_errors''"
    by (elim exE conjE)
  then have a: "\<exists>w'. score_main sample_lib ''pred.csv'' ''gs'' ''results.json''
                       sample_world_validated = Inr w'
          \<and> recorded w' ''results.json'' ''validation_status'' = Some (JStr ''VALIDATED'')
          \<and> recorded w' ''results.json'' ''validation_errors'' = Some (JStr [])"
    by (simp add: sample_validated_record_def)
  from r2 obtain w2 where
    "score_main sample_lib ''pred.csv'' ''gs'' ''results.json'' sample_world = Inr w2"
    "recorded w2 ''results.json'' ''validation_status''
       = dict_get [(''validation_status'', JStr []), (''validation_errors'', JStr [])]
           ''validation_status''"
    "recorded w2 ''results.json'' ''validation_errors''
       = dict_get [(''validation_status'', JStr []), (''validation_errors'', JStr [])]
           ''validation_errors''"
    by (elim exE conjE)
  then have b: "\<exists>w'. score_main sample_lib ''pred.csv'' ''gs'' ''results.json'' sample_world
                     = Inr w'
          \<and> recorded w' ''results.json'' ''validation_status'' = Some (JStr [])
          \<and> recorded w' ''results.json'' ''validation_errors'' = Some (JStr [])"
    by simp
  from st ld1 a ab nf ld2 b show ?thesis by (intro conjI)
qed

text \<open>
  Claim C6. When the joined error text is longer than 500 characters, the recorded
  \<open>validation_errors\<close> is its first 496 characters followed by \<open>...\<close>, 499 characters in
  all; a text of at most 500 characters is recorded unchanged.
\<close>

theorem error_text_truncated:
  assumes "collect_errors lib p g w = Inr es"
  shows "\<exists>w'. validate_main lib p g out w = Inr w'
           \<and> (500 < length (str_join [CHR 0x0A] es)
                \<longrightarrow> recorded w' out ''validation_errors''
                      = Some (JStr (take 496 (str_join [CHR 0x0A] es) @ ''...''))
                    \<and> length (take 496 (str_join [CHR 0x0A] es) @ ''...'') = 499)
           \<and> (length (str_join [CHR 0x0A] es) \<le> 500
                \<longrightarrow> recorded w' out ''validation_errors''
                      = Some (JStr (str_join [CHR 0x0A] es)))"
  by (simp add: validate_main_Inr [OF assms])

theorem error_text_truncated_witness:
  "collect_errors sample_lib ''INVALID_long.txt'' ''gs'' sample_world_long
     = Inr [replicate 501 (CHR ''x'')]
   \<and> (\<exists>w'. validate_main sample_lib ''INVALID_long.txt'' ''gs'' ''results.json'' sample_world_long
             = Inr w'
          \<and> recorded w' ''results.json'' ''validation_errors''
              = Some (JStr (replicate 496 (CHR ''x'') @ ''...'')))"
proof -
  have h: "collect_errors sample_lib ''INVALID_long.txt'' ''gs'' sample_world_long
             = Inr [replicate 501 (CHR ''x'')]"
    by (simp add: sample_defs collect_errors_def read_text_def text_of_def)
  from error_text_truncated [OF h, of "''results.json''"] h show ?thesis
    by simp
qed






text \<open>
  Claim C9. When the path of the predictions file contains \<open>INVALID\<close> and the file can be
  read, the only error is the text of the file, as it is; it goes through the same
  status and truncation rules. No check runs and the goldstandard folder is not looked
  up: the outcome is the same for every goldstandard folder, every folder listing and
  every library with the same serialiser.
\<close>

theorem sentinel_file_is_the_error:
  assumes "str_contains ''INVALID'' p" and "files w p = Some c"
  shows "collect_errors lib p g w = Inr [text_of lib c]
       \<and> (\<exists>w'. validate_main lib p g out w = Inr w'
              \<and> recorded w' out ''validation_status''
                  = Some (JStr (if text_of lib c \<noteq> [] then ''INVALID'' else ''VALIDATED''))
              \<and> recorded w' out ''validation_errors''
                  = Some (JStr (if length (text_of lib c) > 500
                                then take 496 (text_of lib c) @ ''...''
                                else text_of lib c))
              \<and> stdout w' = stdout w
                    @ [if text_of lib c \<noteq> [] then ''INVALID'' else ''VALIDATED'']
              \<and> (\<forall>lib' g' L. json_dumps lib' = json_dumps lib
                     \<longrightarrow> validate_main lib' p g' out (w\<lparr>listing := L\<rparr>)
                          = Inr (w'\<lparr>listing := L\<rparr>)))"
proof -
  have ce: "collect_errors lib' p g' (w\<lparr>listing := L\<rparr>) = Inr [text_of lib c]"
    if "json_dumps lib' = json_dumps lib" for lib' g' L
    using that by (cases c) (simp_all add: collect_errors_def read_text_def assms text_of_def)
  have other: "validate_main lib' p g' out (w\<lparr>listing := L\<rparr>)
                 = Inr ((print (if text_of lib c \<noteq> [] then ''INVALID'' else ''VALIDATED'')
                          (write_json out
                             (JObj [(''validation_status'',
                                     JStr (if text_of lib c \<noteq> [] then ''INVALID''
                                           else ''VALIDATED'')),
                                    (''validation_errors'',
                                     JStr (if length (text_of lib c) > 500
                                           then take 496 (text_of lib c) @ ''...''
                                           else text_of lib c))])
                             w))\<lparr>listing := L\<rparr>)"
    if "json_dumps lib' = json_dumps lib" for lib' g' L
    by (simp add: validate_main_Inr [OF ce [OF that]] print_def write_json_def)
  show ?thesis
    using other
    by (simp add: collect_errors_sentinel [OF assms]
          validate_main_Inr [OF collect_errors_sentinel [OF assms]])
qed

theorem sentinel_file_is_the_error_witness:
  "str_contains ''INVALID'' ''INVALID_predictions.txt''
   \<and> files sample_world ''INVALID_predictions.txt'' = Some (Text ''No predictions file found'')
   \<and> (\<exists>w'. validate_main sample_lib ''INVALID_predictions.txt'' ''nowhere'' ''results.json''
               sample_world = Inr w'
          \<and> recorded w' ''results.json'' ''validation_status'' = Some (JStr ''INVALID'')
          \<and> recorded w' ''results.json'' ''validation_errors''
              = Some (JStr ''No predictions file found''))"
proof -
  have h1: "str_contains ''INVALID'' ''INVALID_predictions.txt''"
    by simp
  have h2: "files sample_world ''INVALID_predictions.txt''
              = Some (Text ''No predictions file found'')"
    by (simp add: sample_defs)
  have t: "text_of sample_lib (Text ''No predictions file found'') = ''No predictions file found''"
    by (simp add: text_of_def)
  from sentinel_file_is_the_error [OF h1 h2, of sample_lib "''nowhere''" "''results.json''"]
  obtain w' where
    "validate_main sample_lib ''INVALID_predictions.txt'' ''nowhere'' ''results.json''
       sample_world = Inr w'"
    "recorded w' ''results.json'' ''validation_status''
       = Some (JStr (if text_of sample_lib (Text ''No predictions file found'') \<noteq> []
                     then ''INVALID'' else ''VALIDATED''))"
    "recorded w' ''results.json'' ''validation_errors''
       = Some (JStr (if length (text_of sample_lib (Text ''No predictions file found'')) > 500
                     then take 496 (text_of sample_lib (Text ''No predictions file found''))
                          @ ''...''
                     else text_of sample_lib (Text ''No predictions file found'')))"
    by blast
  with h1 h2 show ?thesis unfolding t by simp
qed

text \<open>
  Claim C10. When the loaded results record has \<open>validation_status\<close> equal to \<open>INVALID\<close>, the
  scorer ends normally whatever the goldstandard folder argument is and whatever the
  folder holds (nothing, one file, several): the files written and the lines printed
  are the same in all these runs.
\<close>

theorem invalid_submission_ignores_goldstandard_folder:
  assumes "load_results lib out w = Inr (JObj d)"
      and "dict_get d ''validation_status'' = Some (JStr ''INVALID'')"
  shows "\<exists>w'. score_main lib p g out w = Inr w'
           \<and> (\<forall>g' L. score_main lib p g' out (w\<lparr>listing := L\<rparr>) = Inr (w'\<lparr>listing := L\<rparr>))"
proof -
  have ld: "load_results lib out (w\<lparr>listing := L\<rparr>) = Inr (JObj d)" for L
  proof -
    have "load_results lib out (w\<lparr>listing := L\<rparr>) = load_results lib out w"
      by (rule load_results_cong) simp_all
    with assms(1) show ?thesis by simp
  qed
  have "score_main lib p g' out (w\<lparr>listing := L\<rparr>)
          = Inr ((print ''INVALID'' (write_json out
               (JObj (dict_update d
                  [(''score_status'', JStr ''INVALID''),
                   (''score_errors'',
                    JStr ''Submission could not be evaluated due to validation errors.'')]))
               w))\<lparr>listing := L\<rparr>)" for g' L
    by (simp add: score_main_invalid [OF ld assms(2)] print_def write_json_def)
  then show ?thesis
    by (simp add: score_main_invalid [OF assms])
qed

theorem invalid_submission_ignores_goldstandard_folder_witness:
  "load_results sample_lib ''results.json'' sample_world_invalid
     = Inr (JObj sample_invalid_record)
   \<and> dict_get sample_invalid_record ''validation_status'' = Some (JStr ''INVALID'')
   \<and> (\<exists>w'. score_main sample_lib ''dup.csv'' ''gs'' ''results.json'' sample_world_invalid = Inr w'
          \<and> score_main sample_lib ''dup.csv'' ''nowhere'' ''results.json''
                (sample_world_invalid\<lparr>listing := (\<lambda>folder. [])\<rparr>)
              = Inr (w'\<lparr>listing := (\<lambda>folder. [])\<rparr>))"
proof -
  have h1: "load_results sample_lib ''results.json'' sample_world_invalid
              = Inr (JObj sample_invalid_record)"
    by (simp add: sample_defs load_results_def json_load_def)
  have h2: "dict_get sample_invalid_record ''validation_status'' = Some (JStr ''INVALID'')"
    by (simp add: sample_invalid_record_def)
  from invalid_submission_ignores_goldstandard_folder [OF h1 h2, of "''dup.csv''" "''gs''"]
  obtain w' where
    "score_main sample_lib ''dup.csv'' ''gs'' ''results.json'' sample_world_invalid = Inr w'"
    "score_main sample_lib ''dup.csv'' ''nowhere'' ''results.json''
        (sample_world_invalid\<lparr>listing := (\<lambda>folder. [])\<rparr>)
      = Inr (w'\<lparr>listing := (\<lambda>folder. [])\<rparr>)"
    by blast
  with h1 h2 show ?thesis by blast
qed

end
